theory Spec2Isabelle
  imports Complex_Main "HOL-Library.Log_Nat" "HOL-Library.Word"
begin

section \<open>CVODES integrator core: a shallow embedding of cvodes.c\<close>

text \<open>
  The integrator memory block \<open>CVodeMemRec\<close> is a record; every routine of cvodes.c that
  is modelled takes the block and returns the updated block. The type \<open>realtype\<close> is the
  IEEE 754 double: every operation rounds as the machine does. C \<open>int\<close> values are
  modelled by \<open>int\<close>; no modelled counter comes near the 32-bit range.
  A pointer that may be \<open>NULL\<close> is an \<open>option\<close>.
\<close>

subsection \<open>The type realtype\<close>

text \<open>
  Modelled from the spec: \<open>realtype\<close> (sundialstypes.h is not part of the sources) is the
  double-precision floating-point type, and \<open>RCONST\<close> turns a decimal literal into the
  nearest value of the type. A value is its three bit fields: sign, biased exponent and
  fraction. The exponent field \<open>2047\<close> holds the infinities (fraction \<open>0\<close>) and the NaNs;
  every other value is finite.
\<close>

datatype realtype = Double (sign_bit: bool) (expo: "11 word") (frac: "52 word")

definition is_nan :: "realtype \<Rightarrow> bool" where
  "is_nan x \<longleftrightarrow> unat (expo x) = 2047 \<and> unat (frac x) \<noteq> 0"

definition is_inf :: "realtype \<Rightarrow> bool" where
  "is_inf x \<longleftrightarrow> unat (expo x) = 2047 \<and> unat (frac x) = 0"

definition is_finite :: "realtype \<Rightarrow> bool" where
  "is_finite x \<longleftrightarrow> unat (expo x) < 2047"

definition is_zero :: "realtype \<Rightarrow> bool" where
  "is_zero x \<longleftrightarrow> unat (expo x) = 0 \<and> unat (frac x) = 0"

text \<open>
  The magnitude of a finite value, counted in units of the smallest positive value
  \<open>2 ^ - 1074\<close>, is a natural number; \<open>valof\<close> is the real number a finite value
  stands for.
\<close>

definition scaled :: "realtype \<Rightarrow> nat" where
  "scaled x = (if unat (expo x) = 0 then unat (frac x)
               else (2 ^ 52 + unat (frac x)) * 2 ^ (unat (expo x) - 1))"

definition valof :: "realtype \<Rightarrow> real" where
  "valof x = (if sign_bit x then - 1 else 1) * real (scaled x) / 2 ^ 1074"

definition Infinity :: "bool \<Rightarrow> realtype" where
  "Infinity s = Double s 2047 0"

text \<open>Every operation that produces a NaN produces this one; payloads are not tracked.\<close>

definition NaN :: realtype where
  "NaN = Double False 2047 (2 ^ 51)"

fun bitlength :: "nat \<Rightarrow> nat" where
  "bitlength n = (if n = 0 then 0 else Suc (bitlength (n div 2)))"

declare bitlength.simps [simp del]

text \<open>
  \<open>of_scaled s K\<close> is the finite value with sign \<open>s\<close> and magnitude \<open>K\<close> units, for a \<open>K\<close>
  that is the magnitude of a value (\<open>is_double_nat\<close>): below \<open>2 ^ 52\<close> it is subnormal,
  otherwise its 53 leading bits are the significand.
\<close>

definition of_scaled :: "bool \<Rightarrow> nat \<Rightarrow> realtype" where
  "of_scaled s K =
    (if K < 2 ^ 52 then Double s 0 (of_nat K)
     else let E = bitlength K - 52
          in Double s (of_nat E) (of_nat (K div 2 ^ (E - 1) - 2 ^ 52)))"

definition is_double_nat :: "nat \<Rightarrow> bool" where
  "is_double_nat K \<longleftrightarrow> K < 2 ^ 2098 \<and> 2 ^ (bitlength K - 53) dvd K"

definition is_double_real :: "real \<Rightarrow> bool" where
  "is_double_real r \<longleftrightarrow> (\<exists>K. is_double_nat K \<and> \<bar>r\<bar> * 2 ^ 1074 = real K)"

text \<open>
  Rounding to nearest, ties to even: \<open>round_scaled s X\<close> rounds the magnitude \<open>X \<ge> 0\<close>,
  given in units, to the spacing \<open>2 ^ p\<close> of the values around it and attaches the sign;
  a result of \<open>2 ^ 2098\<close> units (the number \<open>2 ^ 1024\<close>) or more is an infinity.
\<close>

definition round_even :: "real \<Rightarrow> nat" where
  "round_even y =
    (let n = nat \<lfloor>y\<rfloor>; r = y - real n
     in if r < 1 / 2 then n else if r > 1 / 2 then n + 1 else if even n then n else n + 1)"

definition round_scaled :: "bool \<Rightarrow> real \<Rightarrow> realtype" where
  "round_scaled s X =
    (let p = bitlength (nat \<lfloor>X\<rfloor>) - 53;
         K = round_even (X / 2 ^ p) * 2 ^ p
     in if K \<ge> 2 ^ 2098 then Infinity s else of_scaled s K)"

definition RCONST :: "real \<Rightarrow> realtype" where
  "RCONST x = round_scaled (x < 0) (\<bar>x\<bar> * 2 ^ 1074)"

text \<open>
  The order of the comparisons: an infinity lies beyond every finite value. The
  arithmetic and the comparisons of C are \<open>+\<close>, \<open>-\<close>, \<open>*\<close>, \<open>/\<close>, \<open><\<close> and \<open>\<le>\<close> on
  \<open>realtype\<close>; a comparison with a NaN is false. The equality \<open>=\<close> of the logic is the
  identity of the bits, and \<open>==\<close> of C is \<open>realtype_eq\<close>.
\<close>

definition ordval :: "realtype \<Rightarrow> real" where
  "ordval x = (if is_inf x then (if sign_bit x then - (2 ^ 1024) else 2 ^ 1024) else valof x)"

instantiation realtype :: "{plus, minus, uminus, times, inverse, abs, ord}"
begin

definition uminus_realtype :: "realtype \<Rightarrow> realtype" where
  "- x = Double (\<not> sign_bit x) (expo x) (frac x)"

definition abs_realtype :: "realtype \<Rightarrow> realtype" where
  "\<bar>x\<bar> = Double False (expo x) (frac x)"

definition plus_realtype :: "realtype \<Rightarrow> realtype \<Rightarrow> realtype" where
  "x + y =
    (if is_nan x \<or> is_nan y then NaN
     else if is_inf x then (if is_inf y \<and> sign_bit x \<noteq> sign_bit y then NaN else x)
     else if is_inf y then y
     else if valof x + valof y = 0 then Double (sign_bit x \<and> sign_bit y) 0 0
     else RCONST (valof x + valof y))"

definition minus_realtype :: "realtype \<Rightarrow> realtype \<Rightarrow> realtype" where
  "(x::realtype) - y = x + (- y)"

definition times_realtype :: "realtype \<Rightarrow> realtype \<Rightarrow> realtype" where
  "x * y =
    (if is_nan x \<or> is_nan y then NaN
     else if is_inf x \<or> is_inf y then
       (if is_zero x \<or> is_zero y then NaN else Infinity (sign_bit x \<noteq> sign_bit y))
     else round_scaled (sign_bit x \<noteq> sign_bit y) (real (scaled x) * real (scaled y) / 2 ^ 1074))"

definition divide_realtype :: "realtype \<Rightarrow> realtype \<Rightarrow> realtype" where
  "x div y =
    (if is_nan x \<or> is_nan y then NaN
     else if is_inf x then (if is_inf y then NaN else Infinity (sign_bit x \<noteq> sign_bit y))
     else if is_inf y then Double (sign_bit x \<noteq> sign_bit y) 0 0
     else if is_zero y then (if is_zero x then NaN else Infinity (sign_bit x \<noteq> sign_bit y))
     else round_scaled (sign_bit x \<noteq> sign_bit y) (real (scaled x) / real (scaled y) * 2 ^ 1074))"

definition inverse_realtype :: "realtype \<Rightarrow> realtype" where
  "inverse x = RCONST 1 div x"

definition less_realtype :: "realtype \<Rightarrow> realtype \<Rightarrow> bool" where
  "x < y \<longleftrightarrow> \<not> is_nan x \<and> \<not> is_nan y \<and> ordval x < ordval y"

definition less_eq_realtype :: "realtype \<Rightarrow> realtype \<Rightarrow> bool" where
  "x \<le> y \<longleftrightarrow> \<not> is_nan x \<and> \<not> is_nan y \<and> ordval x \<le> ordval y"

instance ..

end


definition realtype_eq :: "realtype \<Rightarrow> realtype \<Rightarrow> bool" where
  "realtype_eq x y \<longleftrightarrow> \<not> is_nan x \<and> \<not> is_nan y \<and> ordval x = ordval y"

text \<open>The conversion of an \<open>int\<close> to \<open>realtype\<close>.\<close>

definition realtype_of_int :: "int \<Rightarrow> realtype" where
  "realtype_of_int i = RCONST (real_of_int i)"

text \<open>The square root of the C library, correctly rounded.\<close>

definition sqrt_realtype :: "realtype \<Rightarrow> realtype" where
  "sqrt_realtype x =
    (if is_nan x then NaN
     else if is_zero x then x
     else if sign_bit x then NaN
     else if is_inf x then x
     else RCONST (sqrt (valof x)))"

text \<open>The constants that cvodes.c defines for the literals it uses.\<close>

definition ZERO :: realtype where "ZERO = RCONST 0"
definition HALF :: realtype where "HALF = RCONST (1 / 2)"
definition ONE :: realtype where "ONE = RCONST 1"
definition TWO :: realtype where "TWO = RCONST 2"

subsection \<open>Vector kernel\<close>

text \<open>
  Modelled from the spec: the N_Vector operations (nvector.h and its implementations are
  not part of the sources). Section 4.1 of the specification gives each operation as a
  componentwise formula; a vector is the list of its components. An operation with an
  output argument returns the new contents of that argument.
\<close>

type_synonym N_Vector = "realtype list"

definition N_VLinearSum :: "realtype \<Rightarrow> N_Vector \<Rightarrow> realtype \<Rightarrow> N_Vector \<Rightarrow> N_Vector" where
  "N_VLinearSum a x b y = map2 (\<lambda>xi yi. a * xi + b * yi) x y"

definition N_VScale :: "realtype \<Rightarrow> N_Vector \<Rightarrow> N_Vector" where
  "N_VScale c x = map (\<lambda>xi. c * xi) x"

definition N_VConst :: "realtype \<Rightarrow> N_Vector \<Rightarrow> N_Vector" where
  "N_VConst c z = map (\<lambda>_. c) z"

definition N_VAbs :: "N_Vector \<Rightarrow> N_Vector" where
  "N_VAbs x = map abs x"

definition N_VInv :: "N_Vector \<Rightarrow> N_Vector" where
  "N_VInv x = map (\<lambda>xi. ONE / xi) x"

definition N_VAddConst :: "N_Vector \<Rightarrow> realtype \<Rightarrow> N_Vector" where
  "N_VAddConst x b = map (\<lambda>xi. xi + b) x"

definition N_VProd :: "N_Vector \<Rightarrow> N_Vector \<Rightarrow> N_Vector" where
  "N_VProd x y = map2 (\<lambda>xi yi. xi * yi) x y"

definition N_VDiv :: "N_Vector \<Rightarrow> N_Vector \<Rightarrow> N_Vector" where
  "N_VDiv x y = map2 (\<lambda>xi yi. xi / yi) x y"

text \<open>
  The minimum, the maximum norm and the weighted root-mean-square norm run over the
  components from the first to the last, as loops do.
\<close>

definition N_VMin :: "N_Vector \<Rightarrow> realtype" where
  "N_VMin x = fold (\<lambda>xi m. if xi < m then xi else m) (tl x) (hd x)"

definition N_VMaxNorm :: "N_Vector \<Rightarrow> realtype" where
  "N_VMaxNorm x = fold (\<lambda>xi m. if \<bar>xi\<bar> > m then \<bar>xi\<bar> else m) x ZERO"

subsection \<open>Scalar helpers of sundialsmath\<close>

text \<open>
  Modelled from the spec: \<open>RPowerI\<close> and \<open>RSqrt\<close> (sundialsmath.h is not part of the
  sources). The specification writes them as the integer power and the square root; the
  power is the repeated product, inverted for a negative exponent.
\<close>

definition RPowerI :: "realtype \<Rightarrow> int \<Rightarrow> realtype" where
  "RPowerI base e =
    (let prod = fold (\<lambda>i prod. prod * base) [1..<Suc (nat \<bar>e\<bar>)] ONE
     in if e < 0 then ONE / prod else prod)"

text \<open>The macros \<open>MIN\<close> and \<open>MAX\<close> are \<open>MIN_rt\<close> and \<open>MAX_rt\<close>; \<open>ABS\<close> is \<open>\<bar>_\<bar>\<close>, which clears the sign bit.\<close>

definition MIN_rt :: "realtype \<Rightarrow> realtype \<Rightarrow> realtype" where
  "MIN_rt a b = (if a < b then a else b)"

definition MAX_rt :: "realtype \<Rightarrow> realtype \<Rightarrow> realtype" where
  "MAX_rt a b = (if a > b then a else b)"

definition RSqrt :: "realtype \<Rightarrow> realtype" where
  "RSqrt x = sqrt_realtype x"

definition N_VWrmsNorm :: "N_Vector \<Rightarrow> N_Vector \<Rightarrow> realtype" where
  "N_VWrmsNorm x w =
    RSqrt (fold (\<lambda>(xi, wi) sum. sum + (xi * wi) * (xi * wi)) (zip x w) ZERO
             / realtype_of_int (int (length x)))"

subsection \<open>Constants\<close>

text \<open>
  Modelled from the spec: the enumeration tags of cvodes.h (not part of the sources).
  They are integer tags in the C code; only their being pairwise distinct within one
  enumeration is used.
\<close>

definition ADAMS :: int where "ADAMS = 0"
definition BDF :: int where "BDF = 1"
definition FUNCTIONAL :: int where "FUNCTIONAL = 0"
definition NEWTON :: int where "NEWTON = 1"
definition SS :: int where "SS = 0"
definition SV :: int where "SV = 1"
definition FULL :: int where "FULL = 0"
definition PARTIAL :: int where "PARTIAL = 1"
definition SIMULTANEOUS :: int where "SIMULTANEOUS = 0"
definition STAGGERED :: int where "STAGGERED = 1"
definition STAGGERED1 :: int where "STAGGERED1 = 2"
definition ALLSENS :: int where "ALLSENS = 0"
definition ONESENS :: int where "ONESENS = 1"

text \<open>Modelled from the spec: the order ceilings of cvodes.h, 12 for Adams and 5 for BDF.\<close>

definition ADAMS_Q_MAX :: int where "ADAMS_Q_MAX = 12"
definition BDF_Q_MAX :: int where "BDF_Q_MAX = 5"

text \<open>The private constants of cvodes.c, with the values the file defines.\<close>

definition FUZZ_FACTOR :: realtype where "FUZZ_FACTOR = RCONST 100"
definition HLB_FACTOR :: realtype where "HLB_FACTOR = RCONST 100"
definition HUB_FACTOR :: realtype where "HUB_FACTOR = RCONST (1 / 10)"
definition H_BIAS :: realtype where "H_BIAS = RCONST (1 / 2)"
definition MAX_ITERS :: int where "MAX_ITERS = 4"
definition CORTES :: realtype where "CORTES = RCONST (1 / 10)"
definition MXSTEP_DEFAULT :: int where "MXSTEP_DEFAULT = 500"
definition MXHNIL_DEFAULT :: int where "MXHNIL_DEFAULT = 10"
definition HMIN_DEFAULT :: realtype where "HMIN_DEFAULT = RCONST 0"
definition HMAX_INV_DEFAULT :: realtype where "HMAX_INV_DEFAULT = RCONST 0"

definition SUCCESS_STEP :: int where "SUCCESS_STEP = 0"
definition REP_ERR_FAIL :: int where "REP_ERR_FAIL = - 1"
definition REP_CONV_FAIL :: int where "REP_CONV_FAIL = - 2"
definition SETUP_FAILED :: int where "SETUP_FAILED = - 3"
definition SOLVE_FAILED :: int where "SOLVE_FAILED = - 4"
definition PREDICT_AGAIN :: int where "PREDICT_AGAIN = - 5"
definition DO_ERROR_TEST :: int where "DO_ERROR_TEST = 1"

definition THRESH :: realtype where "THRESH = RCONST (3 / 2)"
definition ETAMX1 :: realtype where "ETAMX1 = RCONST 10000"
definition ETAMX2 :: realtype where "ETAMX2 = RCONST 10"
definition ETAMX3 :: realtype where "ETAMX3 = RCONST 10"
definition ETAMXF :: realtype where "ETAMXF = RCONST (2 / 10)"
definition ETAMIN :: realtype where "ETAMIN = RCONST (1 / 10)"
definition ETACF :: realtype where "ETACF = RCONST (25 / 100)"
definition ADDON :: realtype where "ADDON = RCONST (1 / 1000000)"
definition BIAS1 :: realtype where "BIAS1 = RCONST 6"
definition BIAS2 :: realtype where "BIAS2 = RCONST 6"
definition BIAS3 :: realtype where "BIAS3 = RCONST 10"
definition ONEPSM :: realtype where "ONEPSM = RCONST (1000001 / 1000000)"

definition SMALL_NST :: int where "SMALL_NST = 10"
definition MXNCF :: int where "MXNCF = 10"
definition MXNEF :: int where "MXNEF = 7"
definition MXNEF1 :: int where "MXNEF1 = 3"
definition SMALL_NEF :: int where "SMALL_NEF = 2"
definition LONG_WAIT :: int where "LONG_WAIT = 10"

definition SOLVED :: int where "SOLVED = 0"
definition CONV_FAIL :: int where "CONV_FAIL = - 1"
definition SETUP_FAIL_UNREC :: int where "SETUP_FAIL_UNREC = - 2"
definition SOLVE_FAIL_UNREC :: int where "SOLVE_FAIL_UNREC = - 3"

definition FIRST_CALL :: int where "FIRST_CALL = 0"
definition PREV_CONV_FAIL :: int where "PREV_CONV_FAIL = - 1"
definition PREV_ERR_FAIL :: int where "PREV_ERR_FAIL = - 2"

definition NLS_MAXCOR :: int where "NLS_MAXCOR = 3"
definition CRDOWN :: realtype where "CRDOWN = RCONST (3 / 10)"
definition DGMAX :: realtype where "DGMAX = RCONST (3 / 10)"
definition RDIV :: realtype where "RDIV = RCONST 2"
definition MSBP :: int where "MSBP = 20"
definition TRY_AGAIN :: int where "TRY_AGAIN = 99"

text \<open>
  Modelled from the spec: the \<open>convfail\<close> tags handed to \<open>lsetup\<close> and the return codes of
  the exported functions (both from cvodes.h, not part of the sources). The return codes
  are kept symbolic.
\<close>

definition NO_FAILURES :: int where "NO_FAILURES = 0"
definition FAIL_BAD_J :: int where "FAIL_BAD_J = 1"
definition FAIL_OTHER :: int where "FAIL_OTHER = 2"

datatype retcode =
    SUCCESS | CVS_NO_MEM | CVS_ILL_INPUT
  | CVM_NO_MEM | CVM_ILL_INPUT | CVM_MEM_FAIL
  | CVREI_NO_MEM | CVREI_NO_MALLOC | CVREI_ILL_INPUT
  | OKAY | CVG_NO_MEM | CVG_NO_SENS | BAD_DKY | BAD_K | BAD_T

subsection \<open>The integrator memory block\<close>

text \<open>
  An absolute tolerance arrives through a \<open>void\<close> pointer and is read as one scalar or
  as a vector, as \<open>itol\<close> says; the sensitivity tolerances are an array of scalars or an
  array of vectors.
\<close>

datatype abstol_t = AtolScalar realtype | AtolVector N_Vector

fun atol_scalar :: "abstol_t \<Rightarrow> realtype" where
  "atol_scalar (AtolScalar a) = a"

fun atol_vector :: "abstol_t \<Rightarrow> N_Vector" where
  "atol_vector (AtolVector v) = v"

datatype abstolS_t = AtolSS "realtype list" | AtolSV "N_Vector list"

fun atolS_scalars :: "abstolS_t \<Rightarrow> realtype list" where
  "atolS_scalars (AtolSS a) = a"

fun atolS_vectors :: "abstolS_t \<Rightarrow> N_Vector list" where
  "atolS_vectors (AtolSV v) = v"

text \<open>
  Integer memory outside the block (the caller's variables, the per-sensitivity counter
  arrays) is a store from addresses to values; an \<open>int *\<close> is an address or \<open>NULL\<close>.
\<close>

type_synonym addr = nat
type_synonym int_store = "addr \<Rightarrow> int"

text \<open>
  The fields of \<open>struct CVodeMemRec\<close> that the modelled routines read or write, under
  the names of the struct. The function pointers (\<open>f\<close>, \<open>fQ\<close>, \<open>fS\<close>, \<open>fS1\<close>, \<open>lsetup\<close>,
  \<open>lsolve\<close>) are arguments of the routines that call them; the user-data pointers and the
  error file are left out. \<open>cv_lmem\<close> is the memory of the attached linear solver, of a
  type the integrator does not look into. \<open>cv_znS ! j ! is\<close> is \<open>znS[j][is]\<close>.
\<close>

record 'lm CVodeMemRec =
  cv_uround :: realtype
  cv_lmm :: int
  cv_iter :: int
  cv_itol :: int
  cv_reltol :: realtype
  cv_abstol :: abstol_t
  cv_quad :: bool
  cv_itolQ :: int
  cv_reltolQ :: realtype
  cv_abstolQ :: abstol_t
  cv_errconQ :: int
  cv_sensi :: bool
  cv_Ns :: int
  cv_ism :: int
  cv_ifS :: int
  cv_fSDQ :: bool
  cv_rhomax :: realtype
  cv_errcon :: int
  cv_abstolS :: abstolS_t
  cv_zn :: "N_Vector list"
  cv_ewt :: N_Vector
  cv_y :: N_Vector
  cv_acor :: N_Vector
  cv_tempv :: N_Vector
  cv_ftemp :: N_Vector
  cv_znQ :: "N_Vector list"
  cv_ewtQ :: N_Vector
  cv_yQ :: N_Vector
  cv_acorQ :: N_Vector
  cv_tempvQ :: N_Vector
  cv_znS :: "N_Vector list list"
  cv_ewtS :: "N_Vector list"
  cv_yS :: "N_Vector list"
  cv_acorS :: "N_Vector list"
  cv_tempvS :: "N_Vector list"
  cv_ftempS :: "N_Vector list"
  cv_tstopset :: bool
  cv_tstop :: realtype
  cv_q :: int
  cv_qprime :: int
  cv_next_q :: int
  cv_qwait :: int
  cv_L :: int
  cv_hin :: realtype
  cv_h :: realtype
  cv_hprime :: realtype
  cv_next_h :: realtype
  cv_eta :: realtype
  cv_hscale :: realtype
  cv_tn :: realtype
  cv_tau :: "realtype list"
  cv_tq :: "realtype list"
  cv_l :: "realtype list"
  cv_rl1 :: realtype
  cv_gamma :: realtype
  cv_gammap :: realtype
  cv_gamrat :: realtype
  cv_crate :: realtype
  cv_crateS :: realtype
  cv_acnrm :: realtype
  cv_acnrmQ :: realtype
  cv_acnrmS :: realtype
  cv_nlscoef :: realtype
  cv_mnewt :: int
  cv_qmax :: int
  cv_mxstep :: int
  cv_maxcor :: int
  cv_maxcorS :: int
  cv_mxhnil :: int
  cv_maxnef :: int
  cv_maxncf :: int
  cv_hmin :: realtype
  cv_hmax_inv :: realtype
  cv_etamax :: realtype
  cv_nst :: int
  cv_nfe :: int
  cv_nfQe :: int
  cv_nfSe :: int
  cv_nfeS :: int
  cv_ncfn :: int
  cv_ncfnS :: int
  cv_nniS1 :: "addr option"
  cv_ncfnS1 :: "addr option"
  cv_nni :: int
  cv_nniS :: int
  cv_netf :: int
  cv_netfQ :: int
  cv_netfS :: int
  cv_nsetups :: int
  cv_nsetupsS :: int
  cv_nhnil :: int
  cv_etaqm1 :: realtype
  cv_etaq :: realtype
  cv_etaqp1 :: realtype
  cv_lmem :: 'lm
  cv_qu :: int
  cv_nstlp :: int
  cv_h0u :: realtype
  cv_hu :: realtype
  cv_saved_tq5 :: realtype
  cv_jcur :: bool
  cv_tolsf :: realtype
  cv_setupNonNull :: bool
  cv_forceSetup :: bool
  cv_MallocDone :: bool
  cv_quadMallocDone :: bool
  cv_sensMallocDone :: bool
  cv_sldeton :: bool
  cv_ssdat :: "realtype list list"
  cv_nscon :: int
  cv_nor :: int

text \<open>
  A block with every field zero, every vector empty and every pointer \<open>NULL\<close>: the
  starting point of the concrete blocks on which the properties are evaluated.
\<close>

definition cv_mem_zero :: "unit CVodeMemRec" where
  "cv_mem_zero =
   \<lparr>
     cv_uround = ZERO,
     cv_lmm = 0,
     cv_iter = 0,
     cv_itol = 0,
     cv_reltol = ZERO,
     cv_abstol = AtolScalar ZERO,
     cv_quad = False,
     cv_itolQ = 0,
     cv_reltolQ = ZERO,
     cv_abstolQ = AtolScalar ZERO,
     cv_errconQ = 0,
     cv_sensi = False,
     cv_Ns = 0,
     cv_ism = 0,
     cv_ifS = 0,
     cv_fSDQ = False,
     cv_rhomax = ZERO,
     cv_errcon = 0,
     cv_abstolS = AtolSS [],
     cv_zn = [],
     cv_ewt = [],
     cv_y = [],
     cv_acor = [],
     cv_tempv = [],
     cv_ftemp = [],
     cv_znQ = [],
     cv_ewtQ = [],
     cv_yQ = [],
     cv_acorQ = [],
     cv_tempvQ = [],
     cv_znS = [],
     cv_ewtS = [],
     cv_yS = [],
     cv_acorS = [],
     cv_tempvS = [],
     cv_ftempS = [],
     cv_tstopset = False,
     cv_tstop = ZERO,
     cv_q = 0,
     cv_qprime = 0,
     cv_next_q = 0,
     cv_qwait = 0,
     cv_L = 0,
     cv_hin = ZERO,
     cv_h = ZERO,
     cv_hprime = ZERO,
     cv_next_h = ZERO,
     cv_eta = ZERO,
     cv_hscale = ZERO,
     cv_tn = ZERO,
     cv_tau = [],
     cv_tq = [],
     cv_l = [],
     cv_rl1 = ZERO,
     cv_gamma = ZERO,
     cv_gammap = ZERO,
     cv_gamrat = ZERO,
     cv_crate = ZERO,
     cv_crateS = ZERO,
     cv_acnrm = ZERO,
     cv_acnrmQ = ZERO,
     cv_acnrmS = ZERO,
     cv_nlscoef = ZERO,
     cv_mnewt = 0,
     cv_qmax = 0,
     cv_mxstep = 0,
     cv_maxcor = 0,
     cv_maxcorS = 0,
     cv_mxhnil = 0,
     cv_maxnef = 0,
     cv_maxncf = 0,
     cv_hmin = ZERO,
     cv_hmax_inv = ZERO,
     cv_etamax = ZERO,
     cv_nst = 0,
     cv_nfe = 0,
     cv_nfQe = 0,
     cv_nfSe = 0,
     cv_nfeS = 0,
     cv_ncfn = 0,
     cv_ncfnS = 0,
     cv_nniS1 = None,
     cv_ncfnS1 = None,
     cv_nni = 0,
     cv_nniS = 0,
     cv_netf = 0,
     cv_netfQ = 0,
     cv_netfS = 0,
     cv_nsetups = 0,
     cv_nsetupsS = 0,
     cv_nhnil = 0,
     cv_etaqm1 = ZERO,
     cv_etaq = ZERO,
     cv_etaqp1 = ZERO,
     cv_lmem = (),
     cv_qu = 0,
     cv_nstlp = 0,
     cv_h0u = ZERO,
     cv_hu = ZERO,
     cv_saved_tq5 = ZERO,
     cv_jcur = False,
     cv_tolsf = ZERO,
     cv_setupNonNull = False,
     cv_forceSetup = False,
     cv_MallocDone = False,
     cv_quadMallocDone = False,
     cv_sensMallocDone = False,
     cv_sldeton = False,
     cv_ssdat = [],
     cv_nscon = 0,
     cv_nor = 0 \<rparr>"

subsection \<open>Creation and the maximum order\<close>

text \<open>
  \<open>CVodeCreate\<close>: the first argument is what \<open>malloc\<close> returned, \<open>None\<close> for \<open>NULL\<close> and
  otherwise a block whose contents are whatever the allocator left there. The result is
  the returned pointer. \<open>UnitRoundoff()\<close> is the argument \<open>ur\<close>.
\<close>

definition CVodeCreate ::
  "'lm CVodeMemRec option \<Rightarrow> realtype \<Rightarrow> int \<Rightarrow> int \<Rightarrow> 'lm CVodeMemRec option" where
  "CVodeCreate malloc_result ur lmm iter =
    (if lmm \<noteq> ADAMS \<and> lmm \<noteq> BDF then None
     else if iter \<noteq> FUNCTIONAL \<and> iter \<noteq> NEWTON then None
     else case malloc_result of
       None \<Rightarrow> None
     | Some cv_mem \<Rightarrow>
         (let maxord = (if lmm = ADAMS then ADAMS_Q_MAX else BDF_Q_MAX)
          in Some (cv_mem
            \<lparr> cv_lmm := lmm,
              cv_iter := iter,
              cv_uround := ur,
              cv_qmax := maxord,
              cv_mxstep := MXSTEP_DEFAULT,
              cv_mxhnil := MXHNIL_DEFAULT,
              cv_sldeton := False,
              cv_hin := ZERO,
              cv_hmin := HMIN_DEFAULT,
              cv_hmax_inv := HMAX_INV_DEFAULT,
              cv_tstopset := False,
              cv_maxcor := NLS_MAXCOR,
              cv_maxnef := MXNEF,
              cv_maxncf := MXNCF,
              cv_nlscoef := CORTES,
              cv_errconQ := FULL,
              cv_fSDQ := True,
              cv_ifS := ONESENS,
              cv_errcon := FULL,
              cv_rhomax := ZERO,
              cv_maxcorS := NLS_MAXCOR,
              cv_MallocDone := False,
              cv_quadMallocDone := False,
              cv_sensMallocDone := False \<rparr>)))"

text \<open>
  \<open>CVodeSetMaxOrd\<close> returns its code together with the memory block as the call leaves it.
\<close>

definition CVodeSetMaxOrd ::
  "'lm CVodeMemRec option \<Rightarrow> int \<Rightarrow> retcode \<times> 'lm CVodeMemRec option" where
  "CVodeSetMaxOrd cvode_mem maxord =
    (case cvode_mem of
       None \<Rightarrow> (CVS_NO_MEM, None)
     | Some cv_mem \<Rightarrow>
         if maxord \<le> 0 then (CVS_ILL_INPUT, Some cv_mem)
         else if maxord > cv_qmax cv_mem then (CVS_ILL_INPUT, Some cv_mem)
         else (SUCCESS, Some (cv_mem\<lparr>cv_qmax := maxord\<rparr>)))"

text \<open>
  A client that calls \<open>CVodeSetMaxOrd\<close> on one handle with the values of a list, one
  after the other, whatever each call returns.
\<close>

fun CVodeSetMaxOrd_calls :: "'lm CVodeMemRec option \<Rightarrow> int list \<Rightarrow> 'lm CVodeMemRec option" where
  "CVodeSetMaxOrd_calls cvode_mem [] = cvode_mem"
| "CVodeSetMaxOrd_calls cvode_mem (maxord # rest) =
     CVodeSetMaxOrd_calls (snd (CVodeSetMaxOrd cvode_mem maxord)) rest"

subsection \<open>Error weights\<close>

text \<open>
  \<open>CVEwtSetSS\<close>, \<open>CVEwtSetSV\<close> and \<open>CVEwtSet\<close> return the flag together with the block,
  in which \<open>tempv\<close> holds the intermediate vector and, on success, \<open>ewt\<close> the weights.
\<close>

definition CVEwtSetSS :: "'lm CVodeMemRec \<Rightarrow> N_Vector \<Rightarrow> bool \<times> 'lm CVodeMemRec" where
  "CVEwtSetSS cv_mem ycur =
    (let rtoli = cv_reltol cv_mem;
         atoli = atol_scalar (cv_abstol cv_mem);
         cv_mem = cv_mem\<lparr>cv_tempv := N_VAbs ycur\<rparr>;
         cv_mem = cv_mem\<lparr>cv_tempv := N_VScale rtoli (cv_tempv cv_mem)\<rparr>;
         cv_mem = cv_mem\<lparr>cv_tempv := N_VAddConst (cv_tempv cv_mem) atoli\<rparr>
     in if N_VMin (cv_tempv cv_mem) \<le> ZERO then (False, cv_mem)
        else (True, cv_mem\<lparr>cv_ewt := N_VInv (cv_tempv cv_mem)\<rparr>))"

definition CVEwtSetSV :: "'lm CVodeMemRec \<Rightarrow> N_Vector \<Rightarrow> bool \<times> 'lm CVodeMemRec" where
  "CVEwtSetSV cv_mem ycur =
    (let rtoli = cv_reltol cv_mem;
         cv_mem = cv_mem\<lparr>cv_tempv := N_VAbs ycur\<rparr>;
         cv_mem = cv_mem\<lparr>cv_tempv :=
                    N_VLinearSum rtoli (cv_tempv cv_mem) ONE (atol_vector (cv_abstol cv_mem))\<rparr>
     in if N_VMin (cv_tempv cv_mem) \<le> ZERO then (False, cv_mem)
        else (True, cv_mem\<lparr>cv_ewt := N_VInv (cv_tempv cv_mem)\<rparr>))"

definition CVEwtSet :: "'lm CVodeMemRec \<Rightarrow> N_Vector \<Rightarrow> bool \<times> 'lm CVodeMemRec" where
  "CVEwtSet cv_mem ycur =
    (if cv_itol cv_mem = SS then CVEwtSetSS cv_mem ycur
     else if cv_itol cv_mem = SV then CVEwtSetSV cv_mem ycur
     else (True, cv_mem))"

subsection \<open>Allocation and initialization\<close>

text \<open>
  \<open>N_VNew\<close> is the argument \<open>nvnew\<close>: its value at \<open>i\<close> is what the \<open>i\<close>-th request of
  the call returns, \<open>None\<close> for \<open>NULL\<close> and otherwise a vector of the problem's shape with
  whatever contents. Freed vectors keep their last contents in the model; the
  workspace-size bookkeeping (\<open>lrw\<close>, \<open>liw\<close>) is left out.
\<close>

fun CVAllocVectors_zn ::
  "(nat \<Rightarrow> N_Vector option) \<Rightarrow> nat list \<Rightarrow> 'lm CVodeMemRec \<Rightarrow> bool \<times> 'lm CVodeMemRec" where
  "CVAllocVectors_zn nvnew [] cv_mem = (True, cv_mem)"
| "CVAllocVectors_zn nvnew (j # js) cv_mem =
    (case nvnew (4 + j) of
       None \<Rightarrow> (False, cv_mem)
     | Some v \<Rightarrow> CVAllocVectors_zn nvnew js (cv_mem\<lparr>cv_zn := (cv_zn cv_mem)[j := v]\<rparr>))"

definition CVAllocVectors ::
  "(nat \<Rightarrow> N_Vector option) \<Rightarrow> 'lm CVodeMemRec \<Rightarrow> bool \<times> 'lm CVodeMemRec" where
  "CVAllocVectors nvnew cv_mem =
    (case nvnew 0 of None \<Rightarrow> (False, cv_mem) | Some v0 \<Rightarrow>
     let cv_mem = cv_mem\<lparr>cv_ewt := v0\<rparr> in
     case nvnew 1 of None \<Rightarrow> (False, cv_mem) | Some v1 \<Rightarrow>
     let cv_mem = cv_mem\<lparr>cv_acor := v1\<rparr> in
     case nvnew 2 of None \<Rightarrow> (False, cv_mem) | Some v2 \<Rightarrow>
     let cv_mem = cv_mem\<lparr>cv_tempv := v2\<rparr> in
     case nvnew 3 of None \<Rightarrow> (False, cv_mem) | Some v3 \<Rightarrow>
     let cv_mem = cv_mem\<lparr>cv_ftemp := v3\<rparr> in
     CVAllocVectors_zn nvnew [0..<nat (cv_qmax cv_mem + 1)] cv_mem)"

text \<open>
  The messages \<open>CVodeMalloc\<close> and \<open>CVodeReInit\<close> print, by the names of their macros.
\<close>

datatype message =
    MSG_CVM_NO_MEM | MSG_Y0_NULL | MSG_BAD_ITOL | MSG_F_NULL | MSG_RELTOL_NULL
  | MSG_BAD_RELTOL | MSG_ABSTOL_NULL | MSG_BAD_ABSTOL | MSG_MEM_FAIL | MSG_BAD_EWT
  | MSG_CVREI_NO_MALLOC

text \<open>
  \<open>CVodeMalloc\<close> returns its code, the message it printed and the block as the call
  leaves it. Only the presence of the right-hand side function is looked at, so \<open>f\<close> is
  a flag here: \<open>True\<close> when the pointer is not \<open>NULL\<close>.
\<close>

definition CVodeMalloc ::
  "'lm CVodeMemRec option \<Rightarrow> bool \<Rightarrow> realtype \<Rightarrow> N_Vector option \<Rightarrow> int \<Rightarrow> realtype option \<Rightarrow>
   abstol_t option \<Rightarrow> (nat \<Rightarrow> N_Vector option) \<Rightarrow>
   retcode \<times> message option \<times> 'lm CVodeMemRec option" where
  "CVodeMalloc cvode_mem f t0 y0 itol reltol abstol nvnew =
    (case cvode_mem of None \<Rightarrow> (CVM_NO_MEM, Some MSG_CVM_NO_MEM, None) | Some cv_mem \<Rightarrow>
     case y0 of None \<Rightarrow> (CVM_ILL_INPUT, Some MSG_Y0_NULL, Some cv_mem) | Some y0v \<Rightarrow>
     if itol \<noteq> SS \<and> itol \<noteq> SV then (CVM_ILL_INPUT, Some MSG_BAD_ITOL, Some cv_mem)
     else if \<not> f then (CVM_ILL_INPUT, Some MSG_F_NULL, Some cv_mem)
     else case reltol of None \<Rightarrow> (CVM_ILL_INPUT, Some MSG_RELTOL_NULL, Some cv_mem) | Some rtol \<Rightarrow>
     if rtol < ZERO then (CVM_ILL_INPUT, Some MSG_BAD_RELTOL, Some cv_mem)
     else case abstol of None \<Rightarrow> (CVM_ILL_INPUT, Some MSG_ABSTOL_NULL, Some cv_mem) | Some atol \<Rightarrow>
     let neg_abstol = (if itol = SS then atol_scalar atol < ZERO
                       else N_VMin (atol_vector atol) < ZERO)
     in if neg_abstol then (CVM_ILL_INPUT, Some MSG_BAD_ABSTOL, Some cv_mem)
     else
       let (allocOK, cv_mem) = CVAllocVectors nvnew cv_mem
       in if \<not> allocOK then (CVM_MEM_FAIL, Some MSG_MEM_FAIL, Some cv_mem)
       else
         let cv_mem = cv_mem\<lparr>cv_itol := itol, cv_reltol := rtol, cv_abstol := atol\<rparr>;
             (ewtsetOK, cv_mem) = CVEwtSet cv_mem y0v
         in if \<not> ewtsetOK then (CVM_ILL_INPUT, Some MSG_BAD_EWT, Some cv_mem)
         else
           let cv_mem = cv_mem
                 \<lparr> cv_tn := t0,
                   cv_q := 1,
                   cv_L := 2,
                   cv_qwait := 2,
                   cv_etamax := ETAMX1,
                   cv_qu := 0,
                   cv_hu := ZERO,
                   cv_tolsf := ONE,
                   cv_forceSetup := False,
                   cv_zn := (cv_zn cv_mem)[0 := N_VScale ONE y0v],
                   cv_nst := 0,
                   cv_nfe := 0,
                   cv_ncfn := 0,
                   cv_netf := 0,
                   cv_nni := 0,
                   cv_nsetups := 0,
                   cv_nhnil := 0,
                   cv_nstlp := 0,
                   cv_nscon := 0,
                   cv_nor := 0,
                   cv_ssdat :=
                     fold (\<lambda>i ss. fold (\<lambda>k ss. ss[i - 1 := (ss ! (i - 1))[k - 1 := ZERO]]) [1..<4] ss)
                       [1..<6] (cv_ssdat cv_mem),
                   cv_quad := False,
                   cv_sensi := False,
                   cv_MallocDone := True \<rparr>
           in (SUCCESS, None, Some cv_mem))"

text \<open>
  \<open>CVodeReInit\<close> returns its code, the message it printed and the block as the call
  leaves it; \<open>f\<close> is a flag as in \<open>CVodeMalloc\<close>. The tolerances are stored before the
  weights are set, so they stay in the block when the weights are refused.
\<close>

definition CVodeReInit ::
  "'lm CVodeMemRec option \<Rightarrow> bool \<Rightarrow> realtype \<Rightarrow> N_Vector option \<Rightarrow> int \<Rightarrow> realtype option \<Rightarrow>
   abstol_t option \<Rightarrow> retcode \<times> message option \<times> 'lm CVodeMemRec option" where
  "CVodeReInit cvode_mem f t0 y0 itol reltol abstol =
    (case cvode_mem of None \<Rightarrow> (CVREI_NO_MEM, Some MSG_CVM_NO_MEM, None) | Some cv_mem \<Rightarrow>
     if \<not> cv_MallocDone cv_mem then (CVREI_NO_MALLOC, Some MSG_CVREI_NO_MALLOC, Some cv_mem)
     else case y0 of None \<Rightarrow> (CVREI_ILL_INPUT, Some MSG_Y0_NULL, Some cv_mem) | Some y0v \<Rightarrow>
     if itol \<noteq> SS \<and> itol \<noteq> SV then (CVREI_ILL_INPUT, Some MSG_BAD_ITOL, Some cv_mem)
     else if \<not> f then (CVREI_ILL_INPUT, Some MSG_F_NULL, Some cv_mem)
     else case reltol of None \<Rightarrow> (CVREI_ILL_INPUT, Some MSG_RELTOL_NULL, Some cv_mem) | Some rtol \<Rightarrow>
     if rtol < ZERO then (CVREI_ILL_INPUT, Some MSG_BAD_RELTOL, Some cv_mem)
     else case abstol of None \<Rightarrow> (CVREI_ILL_INPUT, Some MSG_ABSTOL_NULL, Some cv_mem) | Some atol \<Rightarrow>
     let neg_abstol = (if itol = SS then atol_scalar atol < ZERO
                       else N_VMin (atol_vector atol) < ZERO)
     in if neg_abstol then (CVREI_ILL_INPUT, Some MSG_BAD_ABSTOL, Some cv_mem)
     else
       let cv_mem = cv_mem\<lparr>cv_itol := itol, cv_reltol := rtol, cv_abstol := atol\<rparr>;
           (ewtsetOK, cv_mem) = CVEwtSet cv_mem y0v
       in if \<not> ewtsetOK then (CVREI_ILL_INPUT, Some MSG_BAD_EWT, Some cv_mem)
       else
         let cv_mem = cv_mem
               \<lparr> cv_tn := t0,
                 cv_q := 1,
                 cv_L := 2,
                 cv_qwait := 2,
                 cv_etamax := ETAMX1,
                 cv_qu := 0,
                 cv_hu := ZERO,
                 cv_tolsf := ONE,
                 cv_forceSetup := False,
                 cv_zn := (cv_zn cv_mem)[0 := N_VScale ONE y0v],
                 cv_nst := 0,
                 cv_nfe := 0,
                 cv_ncfn := 0,
                 cv_netf := 0,
                 cv_nni := 0,
                 cv_nsetups := 0,
                 cv_nhnil := 0,
                 cv_nstlp := 0,
                 cv_nscon := 0,
                 cv_nor := 0,
                 cv_ssdat :=
                   fold (\<lambda>i ss. fold (\<lambda>k ss. ss[i - 1 := (ss ! (i - 1))[k - 1 := ZERO]]) [1..<4] ss)
                     [1..<6] (cv_ssdat cv_mem),
                 cv_sensi := False,
                 cv_quad := False \<rparr>
         in (SUCCESS, None, Some cv_mem))"

subsection \<open>Optional outputs of the STAGGERED1 counters\<close>

text \<open>
  Both functions take the caller's \<open>int *\<close> argument and the integer store, and return
  their code, the value of the parameter variable when the function returns, and the
  store as the call leaves it.
\<close>

definition CVodeGetNumStgrSensNonlinSolvIters ::
  "'lm CVodeMemRec option \<Rightarrow> addr option \<Rightarrow> int_store \<Rightarrow> retcode \<times> addr option \<times> int_store" where
  "CVodeGetNumStgrSensNonlinSolvIters cvode_mem nSTGR1niters store =
    (case cvode_mem of
       None \<Rightarrow> (CVG_NO_MEM, nSTGR1niters, store)
     | Some cv_mem \<Rightarrow>
         if \<not> cv_sensi cv_mem then (CVG_NO_SENS, nSTGR1niters, store)
         else
           let nSTGR1niters = (if cv_ism cv_mem = STAGGERED1 then cv_nniS1 cv_mem else None)
           in (OKAY, nSTGR1niters, store))"

definition CVodeGetNumStgrSensNonlinSolvConvFails ::
  "'lm CVodeMemRec option \<Rightarrow> addr option \<Rightarrow> int_store \<Rightarrow> retcode \<times> addr option \<times> int_store" where
  "CVodeGetNumStgrSensNonlinSolvConvFails cvode_mem nSTGR1ncfails store =
    (case cvode_mem of
       None \<Rightarrow> (CVG_NO_MEM, nSTGR1ncfails, store)
     | Some cv_mem \<Rightarrow>
         if \<not> cv_sensi cv_mem then (CVG_NO_SENS, nSTGR1ncfails, store)
         else
           let nSTGR1ncfails = (if cv_ism cv_mem = STAGGERED1 then cv_ncfnS1 cv_mem else None)
           in (OKAY, nSTGR1ncfails, store))"

subsection \<open>Interpolation\<close>

text \<open>
  \<open>CVodeGetDky\<close> returns its code and the contents of \<open>dky\<close> after the call. The loop
  indices \<open>j\<close> and \<open>i\<close> never go below \<open>k \<ge> 0\<close> and \<open>1\<close>, so they are naturals.
\<close>

definition CVodeGetDky ::
  "'lm CVodeMemRec option \<Rightarrow> realtype \<Rightarrow> int \<Rightarrow> N_Vector option \<Rightarrow> retcode \<times> N_Vector option" where
  "CVodeGetDky cvode_mem t k dky =
    (case cvode_mem of None \<Rightarrow> (CVG_NO_MEM, dky) | Some cv_mem \<Rightarrow>
     case dky of None \<Rightarrow> (BAD_DKY, None) | Some dky0 \<Rightarrow>
     if k < 0 \<or> k > cv_q cv_mem then (BAD_K, Some dky0)
     else
       let tfuzz = FUZZ_FACTOR * cv_uround cv_mem * (\<bar>cv_tn cv_mem\<bar> + \<bar>cv_hu cv_mem\<bar>);
           tfuzz = (if cv_hu cv_mem < ZERO then - tfuzz else tfuzz);
           tp = cv_tn cv_mem - cv_hu cv_mem - tfuzz;
           tn1 = cv_tn cv_mem + tfuzz
       in if (t - tp) * (t - tn1) > ZERO then (BAD_T, Some dky0)
       else
         let s = (t - cv_tn cv_mem) / cv_h cv_mem;
             dky1 = fold (\<lambda>j dky.
                       let c = fold (\<lambda>i c. c * realtype_of_int (int i)) (rev [j - nat k + 1..<Suc j]) ONE
                       in if j = nat (cv_q cv_mem) then N_VScale c (cv_zn cv_mem ! nat (cv_q cv_mem))
                          else N_VLinearSum c (cv_zn cv_mem ! j) s dky)
                     (rev [nat k..<Suc (nat (cv_q cv_mem))]) dky0
         in if k = 0 then (OKAY, Some dky1)
            else
              let r = RPowerI (cv_h cv_mem) (- k)
              in (OKAY, Some (N_VScale r dky1)))"

subsection \<open>Prediction and its undoing\<close>

text \<open>
  In \<open>CVPredict\<close> and \<open>CVRestore\<close> the loop indices run over \<open>1 \<le> k \<le> j \<le> q\<close>, so they
  are naturals; when \<open>q \<le> 0\<close> the loops do not run.
\<close>

definition CVPredict :: "'lm CVodeMemRec \<Rightarrow> 'lm CVodeMemRec" where
  "CVPredict cv_mem =
    (let q = nat (cv_q cv_mem);
         cv_mem = cv_mem\<lparr>cv_tn := cv_tn cv_mem + cv_h cv_mem\<rparr>;
         cv_mem = cv_mem\<lparr>cv_zn :=
           fold (\<lambda>k. fold (\<lambda>j zn. zn[j - 1 := N_VLinearSum ONE (zn ! (j - 1)) ONE (zn ! j)])
                         (rev [k..<Suc q]))
                [1..<Suc q] (cv_zn cv_mem)\<rparr>;
         cv_mem = (if cv_quad cv_mem then cv_mem\<lparr>cv_znQ :=
           fold (\<lambda>k. fold (\<lambda>j znQ. znQ[j - 1 := N_VLinearSum ONE (znQ ! (j - 1)) ONE (znQ ! j)])
                         (rev [k..<Suc q]))
                [1..<Suc q] (cv_znQ cv_mem)\<rparr> else cv_mem);
         cv_mem = (if cv_sensi cv_mem then cv_mem\<lparr>cv_znS :=
           fold (\<lambda>is. fold (\<lambda>k. fold (\<lambda>j znS. znS[j - 1 := (znS ! (j - 1))
                            [is := N_VLinearSum ONE (znS ! (j - 1) ! is) ONE (znS ! j ! is)]])
                         (rev [k..<Suc q]))
                [1..<Suc q])
             [0..<nat (cv_Ns cv_mem)] (cv_znS cv_mem)\<rparr> else cv_mem)
     in cv_mem)"

definition CVRestore :: "'lm CVodeMemRec \<Rightarrow> realtype \<Rightarrow> 'lm CVodeMemRec" where
  "CVRestore cv_mem saved_t =
    (let q = nat (cv_q cv_mem);
         cv_mem = cv_mem\<lparr>cv_tn := saved_t\<rparr>;
         cv_mem = cv_mem\<lparr>cv_zn :=
           fold (\<lambda>k. fold (\<lambda>j zn. zn[j - 1 := N_VLinearSum ONE (zn ! (j - 1)) (- ONE) (zn ! j)])
                         (rev [k..<Suc q]))
                [1..<Suc q] (cv_zn cv_mem)\<rparr>;
         cv_mem = (if cv_quad cv_mem then cv_mem\<lparr>cv_znQ :=
           fold (\<lambda>k. fold (\<lambda>j znQ. znQ[j - 1 := N_VLinearSum ONE (znQ ! (j - 1)) (- ONE) (znQ ! j)])
                         (rev [k..<Suc q]))
                [1..<Suc q] (cv_znQ cv_mem)\<rparr> else cv_mem);
         cv_mem = (if cv_sensi cv_mem then cv_mem\<lparr>cv_znS :=
           fold (\<lambda>is. fold (\<lambda>k. fold (\<lambda>j znS. znS[j - 1 := (znS ! (j - 1))
                            [is := N_VLinearSum ONE (znS ! (j - 1) ! is) (- ONE) (znS ! j ! is)]])
                         (rev [k..<Suc q]))
                [1..<Suc q])
             [0..<nat (cv_Ns cv_mem)] (cv_znS cv_mem)\<rparr> else cv_mem)
     in cv_mem)"

subsection \<open>Stability limit detection: saving the data\<close>

text \<open>
  \<open>CVBDFStab\<close>. The analysis routine \<open>CVsldet\<close> reads \<open>ssdat\<close> and \<open>q\<close>, writes nothing
  in the block and returns a flag; it is an argument here, so that what is proved of
  \<open>CVBDFStab\<close> holds whatever the analysis returns. The C variable \<open>factorial\<close> is an
  \<open>int\<close>, and so are the products \<open>factorial*q\<close> and \<open>factorial*q*(q+1)\<close>.
\<close>

definition CVBDFStab :: "('lm CVodeMemRec \<Rightarrow> int) \<Rightarrow> 'lm CVodeMemRec \<Rightarrow> 'lm CVodeMemRec" where
  "CVBDFStab CVsldet cv_mem =
    (let q = cv_q cv_mem;
         cv_mem =
           (if q \<ge> 3 then
              let ssdat = fold (\<lambda>k. fold (\<lambda>i ssdat. ssdat[i := (ssdat ! i)[k := ssdat ! (i - 1) ! k]])
                                      (rev [2..<6]))
                               [1..<4] (cv_ssdat cv_mem);
                  factorial = fold (\<lambda>i factorial. factorial * int i) [1..<nat q] (1::int);
                  sq = realtype_of_int (factorial * q * (q + 1)) * cv_acnrm cv_mem / (cv_tq cv_mem ! 5);
                  sqm1 = realtype_of_int (factorial * q)
                           * N_VWrmsNorm (cv_zn cv_mem ! nat q) (cv_ewt cv_mem);
                  sqm2 = realtype_of_int factorial
                           * N_VWrmsNorm (cv_zn cv_mem ! nat (q - 1)) (cv_ewt cv_mem);
                  ssdat = ssdat[1 := (ssdat ! 1)[1 := sqm2 * sqm2]];
                  ssdat = ssdat[1 := (ssdat ! 1)[2 := sqm1 * sqm1]];
                  ssdat = ssdat[1 := (ssdat ! 1)[3 := sq * sq]]
              in cv_mem\<lparr>cv_ssdat := ssdat\<rparr>
            else cv_mem)
     in if cv_qprime cv_mem \<ge> q then
          (if q \<ge> 3 \<and> cv_nscon cv_mem \<ge> q + 5 then
             let ldflag = CVsldet cv_mem
             in if ldflag > 3 then
                  let cv_mem = cv_mem\<lparr>cv_qprime := q - 1\<rparr>;
                      cv_mem = cv_mem\<lparr>cv_eta := cv_etaqm1 cv_mem\<rparr>;
                      cv_mem = cv_mem\<lparr>cv_eta := MIN_rt (cv_eta cv_mem) (cv_etamax cv_mem)\<rparr>;
                      cv_mem = cv_mem\<lparr>cv_eta := cv_eta cv_mem
                                 / MAX_rt ONE (\<bar>cv_h cv_mem\<bar> * cv_hmax_inv cv_mem * cv_eta cv_mem)\<rparr>;
                      cv_mem = cv_mem\<lparr>cv_hprime := cv_h cv_mem * cv_eta cv_mem\<rparr>
                  in cv_mem\<lparr>cv_nor := cv_nor cv_mem + 1\<rparr>
                else cv_mem
           else cv_mem)
        else cv_mem\<lparr>cv_nscon := 0\<rparr>)"

subsection \<open>Concrete blocks\<close>

text \<open>
  The blocks and callbacks on which the properties below are evaluated.
  \<open>cv_mem_bdf3\<close> is a block at order 3 with one-component vectors; \<open>CVsldet_const\<close>
  stands for an analysis routine in runs that do not reach the analysis.
\<close>

definition cv_mem_bdf3 :: "unit CVodeMemRec" where
  "cv_mem_bdf3 = cv_mem_zero
     \<lparr> cv_lmm := BDF, cv_q := 3, cv_qprime := 3, cv_L := 4, cv_qmax := 5,
       cv_acnrm := RCONST 1, cv_tq := map RCONST [0, 0, 0, 0, 0, 1],
       cv_zn := map (map RCONST) [[2], [2], [2], [2], [2], [2]], cv_ewt := [RCONST 1],
       cv_ssdat := map (map RCONST) [[0, 0, 0, 0], [0, 1, 2, 3], [0, 4, 5, 6], [0, 7, 8, 9],
                    [0, 10, 11, 12], [0, 13, 14, 15]] \<rparr>"

definition CVsldet_const :: "unit CVodeMemRec \<Rightarrow> int" where
  "CVsldet_const cv_mem = 1"

text \<open>
  \<open>cv_mem_qs\<close> is a block at order 2 with quadratures and two sensitivities enabled, before
  a step of size \<open>1/2\<close> from \<open>tn = 1\<close>; \<open>cv_mem_round\<close> is a block at order 1 whose
  solution column is far smaller than its derivative column.
\<close>

definition cv_mem_qs :: "unit CVodeMemRec" where
  "cv_mem_qs = cv_mem_zero
     \<lparr> cv_quad := True, cv_sensi := True, cv_Ns := 2, cv_q := 2, cv_L := 3, cv_h := RCONST (1 / 2),
       cv_tn := RCONST 1, cv_qmax := 5,
       cv_zn := map (map RCONST) [[1], [2], [3]],
       cv_znQ := map (map RCONST) [[4, 0], [5, 1], [6, 2]],
       cv_znS := map (map (map RCONST)) [[[1], [2]], [[3], [4]], [[5], [6]]] \<rparr>"

definition cv_mem_round :: "unit CVodeMemRec" where
  "cv_mem_round = cv_mem_zero
     \<lparr> cv_q := 1, cv_L := 2, cv_qmax := 5, cv_h := RCONST 1, cv_tn := RCONST 0,
       cv_zn := [[RCONST (1 / 2 ^ 60)], [RCONST 1]] \<rparr>"

section \<open>Properties\<close>

subsection \<open>The arithmetic of realtype\<close>

lemma bitlength_floorlog: "bitlength n = floorlog 2 n"
proof (induction n rule: bitlength.induct)
  case (1 n)
  show ?case
  proof (cases "n = 0")
    case True
    then show ?thesis by (simp add: bitlength.simps floorlog_def)
  next
    case False
    then show ?thesis
      using 1 by (subst bitlength.simps, subst compute_floorlog) simp
  qed
qed

lemma bitlength_bounds: "0 < n \<Longrightarrow> 2 ^ (bitlength n - 1) \<le> n \<and> n < 2 ^ bitlength n"
  unfolding bitlength_floorlog using floorlog_bounds [of n 2] by simp

lemma bitlength_eqI:
  assumes "2 ^ b \<le> n" "n < 2 ^ Suc b"
  shows "bitlength n = Suc b"
proof -
  have "Suc b \<le> bitlength n"
    unfolding bitlength_floorlog using assms(1) by (intro floorlog_ge_SucI) auto
  moreover have "bitlength n \<le> Suc b"
    unfolding bitlength_floorlog using assms(2) by (intro floorlog_leI) auto
  ultimately show ?thesis by simp
qed

lemma bitlength_0 [simp]: "bitlength 0 = 0"
  by (simp add: bitlength.simps)

lemma bitlength_less_iff: "bitlength n \<le> b \<longleftrightarrow> n < 2 ^ b"
  unfolding bitlength_floorlog by (simp add: floorlog_le_iff)

lemma bitlength_mult_pow: "0 < m \<Longrightarrow> bitlength (m * 2 ^ e) = bitlength m + e"
  unfolding bitlength_floorlog by simp

lemma scaled_of_scaled:
  assumes "is_double_nat K"
  shows "scaled (of_scaled s K) = K" "is_finite (of_scaled s K)" "sign_bit (of_scaled s K) = s"
proof -
  show "sign_bit (of_scaled s K) = s" by (simp add: of_scaled_def Let_def)
  have "scaled (of_scaled s K) = K \<and> is_finite (of_scaled s K)"
  proof (cases "K < 2 ^ 52")
    case True
    then have "unat (of_nat K :: 52 word) = K"
      by (intro of_nat_inverse [OF refl]) simp
    with True show ?thesis by (simp add: of_scaled_def scaled_def is_finite_def)
  next
    case False
    define b where "b = bitlength K"
    have K0: "0 < K" using False by (cases "K = 0") auto
    from bitlength_bounds [OF K0] have bd: "2 ^ (b - 1) \<le> K" "K < 2 ^ b" by (simp_all add: b_def)
    have b53: "53 \<le> b"
    proof (rule ccontr)
      assume "\<not> 53 \<le> b"
      then have "b \<le> 52" by simp
      then have "(2::nat) ^ b \<le> 2 ^ 52" by (intro power_increasing) auto
      with bd False show False by simp
    qed
    have "K < 2 ^ 2098" using assms unfolding is_double_nat_def by blast
    then have b2098: "b \<le> 2098"
      unfolding b_def bitlength_less_iff .
    define E where "E = b - 52"
    have E: "1 \<le> E" "E \<le> 2046" "E - 1 = b - 53" using b53 b2098 by (simp_all add: E_def)
    from assms have "2 ^ (b - 53) dvd K" unfolding is_double_nat_def b_def by blast
    then have dv: "2 ^ (E - 1) dvd K" unfolding E(3) .
    define m where "m = K div 2 ^ (E - 1)"
    have Km: "K = m * 2 ^ (E - 1)" using dv by (simp add: m_def)
    have bm: "b - 1 = 52 + (E - 1)" "b = 53 + (E - 1)" using b53 by (simp_all add: E_def)
    have "2 ^ 52 * 2 ^ (E - 1) \<le> m * (2::nat) ^ (E - 1)"
      using bd(1) unfolding bm Km by (simp add: power_add)
    then have m1: "2 ^ 52 \<le> m" by simp
    have "m * (2::nat) ^ (E - 1) < 2 ^ 53 * 2 ^ (E - 1)"
      using bd(2) unfolding Km [symmetric] by (subst (asm) bm(2)) (simp add: power_add)
    then have m2: "m < 2 ^ 53" by simp
    have f: "unat (of_nat (m - 2 ^ 52) :: 52 word) = m - 2 ^ 52"
      by (rule of_nat_inverse [OF refl]) (use m1 m2 in simp)
    have e: "unat (of_nat E :: 11 word) = E"
      by (rule of_nat_inverse [OF refl]) (use E in simp)
    have "of_scaled s K = Double s (of_nat E) (of_nat (m - 2 ^ 52))"
      using False by (simp add: of_scaled_def Let_def E_def b_def m_def)
    then show ?thesis
      using f e E m1 Km by (simp add: scaled_def is_finite_def)
  qed
  then show "scaled (of_scaled s K) = K" "is_finite (of_scaled s K)" by simp_all
qed


lemma round_even_of_nat [simp]: "round_even (real n) = n"
  by (simp add: round_even_def)

lemma is_double_natI:
  assumes "m < 2 ^ 53" "e \<le> 2045"
  shows "is_double_nat (m * 2 ^ e)"
proof (cases "m = 0")
  case True
  then show ?thesis by (simp add: is_double_nat_def)
next
  case False
  then have m0: "0 < m" by simp
  have "bitlength m \<le> 53" using assms(1) unfolding bitlength_less_iff .
  then have "bitlength (m * 2 ^ e) - 53 \<le> e"
    unfolding bitlength_mult_pow [OF m0] by simp
  then have "(2::nat) ^ (bitlength (m * 2 ^ e) - 53) dvd 2 ^ e"
    by (rule le_imp_power_dvd)
  then have d: "2 ^ (bitlength (m * 2 ^ e) - 53) dvd m * 2 ^ e"
    by (rule dvd_mult)
  have "m * 2 ^ e < 2 ^ 53 * 2 ^ e" using assms(1) by simp
  also have "(2::nat) ^ 53 * 2 ^ e = 2 ^ (53 + e)" by (simp add: power_add)
  also have "\<dots> \<le> 2 ^ 2098" using assms(2) by (intro power_increasing) auto
  finally show ?thesis using d unfolding is_double_nat_def by blast
qed

lemma is_double_nat_small: "K < 2 ^ 53 \<Longrightarrow> is_double_nat K"
  using is_double_natI [of K 0] by simp

lemma of_scaled_scaled:
  assumes "is_finite x"
  shows "is_double_nat (scaled x)" "of_scaled (sign_bit x) (scaled x) = x"
proof -
  obtain s e f where x: "x = Double s e f" by (cases x)
  have f: "unat f < 2 ^ 52" using unsigned_less [of f] by simp
  have "is_double_nat (scaled x) \<and> of_scaled (sign_bit x) (scaled x) = x"
  proof (cases "unat e = 0")
    case True
    then have e0: "e = 0" by (simp add: unat_eq_0)
    have "unat f < 2 ^ 53" using f by simp
    then have "is_double_nat (unat f)" by (rule is_double_nat_small)
    then show ?thesis using f True e0 by (simp add: x scaled_def of_scaled_def)
  next
    case False
    define E where "E = unat e"
    have E: "1 \<le> E" "E \<le> 2046" using False assms by (simp_all add: E_def x is_finite_def)
    define m where "m = 2 ^ 52 + unat f"
    have m: "2 ^ 52 \<le> m" "m < 2 ^ 53" using f by (simp_all add: m_def)
    have K: "scaled x = m * 2 ^ (E - 1)" using False by (simp add: x scaled_def m_def E_def)
    have d: "is_double_nat (m * 2 ^ (E - 1))" using m(2) E by (intro is_double_natI) simp_all
    have bm: "bitlength m = 53" using m by (intro bitlength_eqI [of 52, simplified]) simp_all
    have m0: "0 < m" using m(1) by simp
    have b: "bitlength (m * 2 ^ (E - 1)) - 52 = E"
      unfolding bitlength_mult_pow [OF m0] bm using E by simp
    have "2 ^ 52 * (1::nat) \<le> m * 2 ^ (E - 1)" using m(1) by (intro mult_mono) simp_all
    then have nl: "\<not> m * 2 ^ (E - 1) < 2 ^ 52" by simp
    have "of_scaled s (m * 2 ^ (E - 1)) = Double s (of_nat E) (of_nat (m - 2 ^ 52))"
      unfolding of_scaled_def Let_def b using nl by simp
    also have "of_nat E = e" by (simp add: E_def)
    also have "of_nat (m - 2 ^ 52) = f" by (simp add: m_def)
    finally have "of_scaled s (m * 2 ^ (E - 1)) = Double s e f" .
    then show ?thesis using d K by (simp add: x)
  qed
  then show "is_double_nat (scaled x)" "of_scaled (sign_bit x) (scaled x) = x" by simp_all
qed

lemma round_scaled_exact:
  assumes "is_double_nat K"
  shows "round_scaled s (real K) = of_scaled s K"
proof -
  from assms have d: "2 ^ (bitlength K - 53) dvd K" and b: "K < 2 ^ 2098"
    unfolding is_double_nat_def by blast+
  from d obtain n where n: "K = n * 2 ^ (bitlength K - 53)" by (auto simp: dvd_def mult.commute)
  have "real K / 2 ^ (bitlength K - 53) = real n"
    by (subst n) simp
  then have "round_even (real K / 2 ^ (bitlength K - 53)) * 2 ^ (bitlength K - 53) = K"
    using n by simp
  then show ?thesis using b by (simp add: round_scaled_def Let_def)
qed

lemma is_double_realI:
  assumes "\<bar>r\<bar> * 2 ^ 1074 = real (m * 2 ^ e)" "m < 2 ^ 53" "e \<le> 2045"
  shows "is_double_real r"
  unfolding is_double_real_def using assms(1) is_double_natI [OF assms(2,3)] by blast

lemma valof_RCONST:
  assumes "is_double_real r"
  shows "valof (RCONST r) = r" "is_finite (RCONST r)" "sign_bit (RCONST r) \<longleftrightarrow> r < 0"
proof -
  from assms obtain K where K: "is_double_nat K" "\<bar>r\<bar> * 2 ^ 1074 = real K"
    unfolding is_double_real_def by blast
  have R: "RCONST r = of_scaled (r < 0) K"
    unfolding RCONST_def K(2) by (rule round_scaled_exact [OF K(1)])
  show "is_finite (RCONST r)" "sign_bit (RCONST r) \<longleftrightarrow> r < 0"
    unfolding R using scaled_of_scaled [OF K(1)] by simp_all
  have "\<bar>r\<bar> = real K / 2 ^ 1074" using K(2) by (simp add: field_simps)
  then show "valof (RCONST r) = r"
    unfolding R valof_def scaled_of_scaled [OF K(1)] by (cases "r < 0") simp_all
qed

lemma is_double_real_valof:
  assumes "is_finite x"
  shows "is_double_real (valof x)"
  unfolding is_double_real_def
  using of_scaled_scaled(1) [OF assms] by (intro exI [of _ "scaled x"]) (simp add: valof_def)

lemma RCONST_valof:
  assumes "is_finite x" "\<not> sign_bit x \<or> scaled x \<noteq> 0"
  shows "RCONST (valof x) = x"
proof -
  have a: "\<bar>valof x\<bar> * 2 ^ 1074 = real (scaled x)" by (simp add: valof_def)
  have s: "valof x < 0 \<longleftrightarrow> sign_bit x" using assms(2) by (auto simp: valof_def)
  show ?thesis
    unfolding RCONST_def a s round_scaled_exact [OF of_scaled_scaled(1) [OF assms(1)]]
    by (rule of_scaled_scaled(2) [OF assms(1)])
qed


lemma finite_not_special: "is_finite x \<Longrightarrow> \<not> is_nan x \<and> \<not> is_inf x"
  by (simp add: is_finite_def is_nan_def is_inf_def)

lemma RCONST_0: "RCONST 0 = Double False 0 0"
proof -
  have "round_scaled False (real 0) = of_scaled False 0"
    by (rule round_scaled_exact) (simp add: is_double_nat_def)
  then show ?thesis by (simp add: RCONST_def of_scaled_def)
qed

lemma is_double_real_0 [simp]: "is_double_real 0"
  unfolding is_double_real_def by (intro exI [of _ 0]) (simp add: is_double_nat_def)

lemma is_double_real_minus [simp]: "is_double_real (- r) \<longleftrightarrow> is_double_real r"
  by (simp add: is_double_real_def)

lemma is_double_real_abs [simp]: "is_double_real \<bar>r\<bar> \<longleftrightarrow> is_double_real r"
  by (simp add: is_double_real_def)

lemma RCONST_plus:
  assumes "is_double_real a" "is_double_real b"
  shows "RCONST a + RCONST b = RCONST (a + b)"
proof -
  note A = valof_RCONST [OF assms(1)] and B = valof_RCONST [OF assms(2)]
  have ns: "\<not> is_nan (RCONST a)" "\<not> is_inf (RCONST a)" "\<not> is_nan (RCONST b)" "\<not> is_inf (RCONST b)"
    using finite_not_special A(2) B(2) by blast+
  show ?thesis
  proof (cases "a + b = 0")
    case True
    then have "\<not> (a < 0 \<and> b < 0)" by auto
    then show ?thesis using True ns A B by (simp add: plus_realtype_def RCONST_0)
  next
    case False
    then show ?thesis using ns A B by (simp add: plus_realtype_def)
  qed
qed

lemma uminus_props [simp]:
  "is_nan (- x) = is_nan x" "is_inf (- x) = is_inf x" "is_finite (- x) = is_finite x"
  "is_zero (- x) = is_zero x" "scaled (- x) = scaled x" "sign_bit (- x) = (\<not> sign_bit x)"
  by (simp_all add: uminus_realtype_def is_nan_def is_inf_def is_finite_def is_zero_def scaled_def)

lemma valof_uminus [simp]: "valof (- x) = - valof x"
  unfolding valof_def uminus_props by simp

lemma abs_props [simp]:
  "is_nan \<bar>x\<bar> = is_nan x" "is_inf \<bar>x\<bar> = is_inf x" "is_finite \<bar>x\<bar> = is_finite x"
  "is_zero \<bar>x\<bar> = is_zero x" "scaled \<bar>x\<bar> = scaled x" "sign_bit \<bar>x\<bar> = False"
  by (simp_all add: abs_realtype_def is_nan_def is_inf_def is_finite_def is_zero_def scaled_def)

lemma valof_abs [simp]: "valof \<bar>x\<bar> = \<bar>valof x\<bar>"
  unfolding valof_def abs_props by (simp add: abs_mult)

lemma RCONST_minus:
  assumes "is_double_real a" "is_double_real b"
  shows "RCONST a - RCONST b = RCONST (a - b)"
proof -
  note A = valof_RCONST [OF assms(1)] and B = valof_RCONST [OF assms(2)]
  have ns: "\<not> is_nan (RCONST a)" "\<not> is_inf (RCONST a)" "\<not> is_nan (RCONST b)" "\<not> is_inf (RCONST b)"
    using finite_not_special A(2) B(2) by blast+
  show ?thesis
  proof (cases "a - b = 0")
    case True
    then have "\<not> (a < 0 \<and> \<not> b < 0)" by auto
    then show ?thesis using True ns A B
      by (simp add: minus_realtype_def plus_realtype_def RCONST_0)
  next
    case False
    then show ?thesis using ns A B by (simp add: minus_realtype_def plus_realtype_def)
  qed
qed

lemma scaled_RCONST:
  assumes "is_double_real a"
  shows "real (scaled (RCONST a)) = \<bar>a\<bar> * 2 ^ 1074"
proof -
  have "valof (RCONST a) = a" by (rule valof_RCONST [OF assms])
  then have "\<bar>(if sign_bit (RCONST a) then - 1 else 1) * real (scaled (RCONST a)) / 2 ^ 1074\<bar> = \<bar>a\<bar>"
    unfolding valof_def by simp
  then show ?thesis by (simp add: abs_mult field_simps split: if_splits)
qed

lemma is_zero_iff: "is_finite x \<Longrightarrow> is_zero x \<longleftrightarrow> valof x = 0"
  by (auto simp: is_zero_def valof_def scaled_def is_finite_def)

lemma RCONST_times:
  assumes "is_double_real a" "is_double_real b" "a \<noteq> 0 \<and> b \<noteq> 0 \<or> 0 \<le> a \<and> 0 \<le> b"
  shows "RCONST a * RCONST b = RCONST (a * b)"
proof -
  note A = valof_RCONST [OF assms(1)] and B = valof_RCONST [OF assms(2)]
  have ns: "\<not> is_nan (RCONST a)" "\<not> is_inf (RCONST a)" "\<not> is_nan (RCONST b)" "\<not> is_inf (RCONST b)"
    using finite_not_special A(2) B(2) by blast+
  have m: "real (scaled (RCONST a)) * real (scaled (RCONST b)) / 2 ^ 1074 = \<bar>a * b\<bar> * 2 ^ 1074"
    unfolding scaled_RCONST [OF assms(1)] scaled_RCONST [OF assms(2)] by (simp add: abs_mult)
  have s: "(sign_bit (RCONST a) \<noteq> sign_bit (RCONST b)) = (a * b < 0)"
    unfolding A(3) B(3) using assms(3) by (auto simp: mult_less_0_iff)
  show ?thesis
    unfolding times_realtype_def m s using ns by (simp add: RCONST_def)
qed

lemma RCONST_divide:
  assumes "is_double_real a" "is_double_real b" "b \<noteq> 0" "a \<noteq> 0 \<or> 0 < b"
  shows "RCONST a / RCONST b = RCONST (a / b)"
proof -
  note A = valof_RCONST [OF assms(1)] and B = valof_RCONST [OF assms(2)]
  have ns: "\<not> is_nan (RCONST a)" "\<not> is_inf (RCONST a)" "\<not> is_nan (RCONST b)" "\<not> is_inf (RCONST b)"
    using finite_not_special A(2) B(2) by blast+
  have z: "\<not> is_zero (RCONST b)" using is_zero_iff [OF B(2)] B(1) assms(3) by simp
  have m: "real (scaled (RCONST a)) / real (scaled (RCONST b)) * 2 ^ 1074 = \<bar>a / b\<bar> * 2 ^ 1074"
    unfolding scaled_RCONST [OF assms(1)] scaled_RCONST [OF assms(2)] by simp
  have s: "(sign_bit (RCONST a) \<noteq> sign_bit (RCONST b)) = (a / b < 0)"
    unfolding A(3) B(3) using assms(3,4) by (auto simp: divide_less_0_iff)
  show ?thesis
    unfolding divide_realtype_def m s using ns z by (simp add: RCONST_def)
qed

lemma ordval_finite: "is_finite x \<Longrightarrow> ordval x = valof x"
  unfolding ordval_def using finite_not_special by simp

lemma RCONST_less:
  assumes "is_double_real a" "is_double_real b"
  shows "RCONST a < RCONST b \<longleftrightarrow> a < b" "RCONST a \<le> RCONST b \<longleftrightarrow> a \<le> b"
proof -
  note A = valof_RCONST [OF assms(1)] and B = valof_RCONST [OF assms(2)]
  have ns: "\<not> is_nan (RCONST a)" "\<not> is_nan (RCONST b)"
    using finite_not_special A(2) B(2) by blast+
  have o: "ordval (RCONST a) = a" "ordval (RCONST b) = b"
    using ordval_finite A(1,2) B(1,2) by simp_all
  show "RCONST a < RCONST b \<longleftrightarrow> a < b" "RCONST a \<le> RCONST b \<longleftrightarrow> a \<le> b"
    unfolding less_realtype_def less_eq_realtype_def o using ns by simp_all
qed

lemma RCONST_eq_iff:
  assumes "is_double_real a" "is_double_real b"
  shows "RCONST a = RCONST b \<longleftrightarrow> a = b"
proof
  assume "RCONST a = RCONST b"
  then have "valof (RCONST a) = valof (RCONST b)" by (rule arg_cong)
  then show "a = b" unfolding valof_RCONST(1) [OF assms(1)] valof_RCONST(1) [OF assms(2)] .
next
  assume "a = b"
  then show "RCONST a = RCONST b" by (rule arg_cong)
qed

lemma round_scaled_binade:
  assumes m: "m < 2 ^ 53" "p = 0 \<or> 2 ^ 52 \<le> m"
    and X: "real m * 2 ^ p \<le> X" "X < real (m + 1) * 2 ^ p"
  shows "bitlength (nat \<lfloor>X\<rfloor>) - 53 = p" "nat \<lfloor>X / 2 ^ p\<rfloor> = m"
proof -
  define n where "n = nat \<lfloor>X\<rfloor>"
  have X0: "0 \<le> X" using X(1) by (meson mult_nonneg_nonneg of_nat_0_le_iff order_trans zero_le_numeral zero_le_power)
  have "real (m * 2 ^ p) \<le> X" using X(1) by simp
  then have "int (m * 2 ^ p) \<le> \<lfloor>X\<rfloor>" by (simp add: le_floor_iff)
  then have n1: "m * 2 ^ p \<le> n" unfolding n_def by (metis nat_int nat_mono)
  have "real ((m + 1) * 2 ^ p) = real (m + 1) * 2 ^ p"
    by (simp only: of_nat_mult of_nat_power of_nat_numeral)
  then have "X < real ((m + 1) * 2 ^ p)" using X(2) by presburger
  then have "\<lfloor>X\<rfloor> < int ((m + 1) * 2 ^ p)" by (simp add: floor_less_iff)
  moreover have f0: "0 \<le> \<lfloor>X\<rfloor>" using X0 by simp
  ultimately have n2: "n < (m + 1) * 2 ^ p" unfolding n_def by (simp only: nat_less_iff)
  have "bitlength n - 53 = p"
  proof (cases "2 ^ 52 \<le> m")
    case True
    have "(2::nat) ^ (52 + p) = 2 ^ 52 * 2 ^ p" by (rule power_add)
    also have "\<dots> \<le> m * 2 ^ p" using True by (rule mult_right_mono) simp
    also have "\<dots> \<le> n" by (rule n1)
    finally have a: "2 ^ (52 + p) \<le> n" .
    have "m + 1 \<le> 2 ^ 53" using m(1) by simp
    then have "(m + 1) * 2 ^ p \<le> 2 ^ 53 * (2::nat) ^ p" by (rule mult_right_mono) simp
    also have "\<dots> = 2 ^ Suc (52 + p)" by (simp add: power_add)
    finally have b: "n < 2 ^ Suc (52 + p)" using n2 by simp
    from bitlength_eqI [OF a b] show ?thesis by simp
  next
    case False
    with m(2) have p: "p = 0" by simp
    from False have "m + 1 \<le> 2 ^ 52" by simp
    with n2 p have "n < 2 ^ 52" by simp
    then have "bitlength n \<le> 52" unfolding bitlength_less_iff .
    then show ?thesis using p by simp
  qed
  then show "bitlength (nat \<lfloor>X\<rfloor>) - 53 = p" unfolding n_def .
  have "real m \<le> X / 2 ^ p" using X(1) by (simp add: field_simps)
  moreover have "X / 2 ^ p < real m + 1" using X(2) by (simp add: field_simps)
  ultimately have "\<lfloor>X / 2 ^ p\<rfloor> = int m" by (intro floor_unique) simp_all
  then show "nat \<lfloor>X / 2 ^ p\<rfloor> = m" by simp
qed

lemma round_scaled_down:
  assumes m: "m < 2 ^ 53" "p = 0 \<or> 2 ^ 52 \<le> m"
    and X: "real m * 2 ^ p \<le> X" "X < real m * 2 ^ p + 2 ^ p / 2"
    and b: "m * 2 ^ p < 2 ^ 2098"
  shows "round_scaled s X = of_scaled s (m * 2 ^ p)"
proof -
  have pp: "(0::real) < 2 ^ p" by simp
  have e: "real (m + 1) * 2 ^ p = real m * 2 ^ p + 2 ^ p" by (simp add: algebra_simps)
  have X2: "X < real (m + 1) * 2 ^ p" unfolding e using X(2) pp by linarith
  note B = round_scaled_binade [OF m X(1) X2]
  have "X / 2 ^ p - real m < 1 / 2" using X(2) by (simp add: field_simps)
  then have "round_even (X / 2 ^ p) = m" unfolding round_even_def Let_def B(2) by simp
  then show ?thesis unfolding round_scaled_def Let_def B(1) using b by simp
qed

lemma round_scaled_up:
  assumes m: "m < 2 ^ 53" "p = 0 \<or> 2 ^ 52 \<le> m"
    and X: "real m * 2 ^ p + 2 ^ p / 2 < X" "X < real (m + 1) * 2 ^ p"
  shows "round_scaled s X =
     (if (m + 1) * 2 ^ p \<ge> 2 ^ 2098 then Infinity s else of_scaled s ((m + 1) * 2 ^ p))"
proof -
  have pp: "(0::real) < 2 ^ p" by simp
  have X1: "real m * 2 ^ p \<le> X" using X(1) pp by linarith
  note B = round_scaled_binade [OF m X1 X(2)]
  have "X / 2 ^ p - real m > 1 / 2" using X(1) by (simp add: field_simps)
  then have "round_even (X / 2 ^ p) = m + 1" unfolding round_even_def Let_def B(2) by simp
  then show ?thesis unfolding round_scaled_def Let_def B(1) by simp
qed

lemma round_scaled_tie:
  assumes m: "m < 2 ^ 53" "p = 0 \<or> 2 ^ 52 \<le> m"
    and X: "X = real m * 2 ^ p + 2 ^ p / 2"
  shows "round_scaled s X =
     (if even m then (if m * 2 ^ p \<ge> 2 ^ 2098 then Infinity s else of_scaled s (m * 2 ^ p))
      else if (m + 1) * 2 ^ p \<ge> 2 ^ 2098 then Infinity s else of_scaled s ((m + 1) * 2 ^ p))"
proof -
  have pp: "(0::real) < 2 ^ p" by simp
  have e: "real (m + 1) * 2 ^ p = real m * 2 ^ p + 2 ^ p" by (simp add: algebra_simps)
  have X1: "real m * 2 ^ p \<le> X" using X by simp
  have X2: "X < real (m + 1) * 2 ^ p" unfolding e using X pp by linarith
  note B = round_scaled_binade [OF m X1 X2]
  have "X / 2 ^ p - real m = 1 / 2" using X by (simp add: field_simps)
  then have "round_even (X / 2 ^ p) = (if even m then m else m + 1)"
    unfolding round_even_def Let_def B(2) by simp
  then show ?thesis unfolding round_scaled_def Let_def B(1) by simp
qed

lemma RCONST_down:
  assumes m: "m < 2 ^ 53" "p = 0 \<or> 2 ^ 52 \<le> m" "p \<le> 2045"
    and X: "real m * 2 ^ p \<le> \<bar>x\<bar> * 2 ^ 1074" "\<bar>x\<bar> * 2 ^ 1074 < real m * 2 ^ p + 2 ^ p / 2"
    and y: "\<bar>y\<bar> * 2 ^ 1074 = real (m * 2 ^ p)" "x < 0 \<longleftrightarrow> y < 0"
  shows "RCONST x = RCONST y"
proof -
  have d: "is_double_nat (m * 2 ^ p)" using m(1,3) by (rule is_double_natI)
  then have b: "m * 2 ^ p < 2 ^ 2098" unfolding is_double_nat_def by blast
  have "RCONST x = of_scaled (x < 0) (m * 2 ^ p)"
    unfolding RCONST_def by (rule round_scaled_down [OF m(1,2) X b])
  moreover have "RCONST y = of_scaled (y < 0) (m * 2 ^ p)"
    unfolding RCONST_def y(1) by (rule round_scaled_exact [OF d])
  ultimately show ?thesis using y(2) by simp
qed

lemma RCONST_up:
  assumes m: "m < 2 ^ 53" "p = 0 \<or> 2 ^ 52 \<le> m" "p \<le> 2045" "(m + 1) * 2 ^ p < 2 ^ 2098"
    and X: "real m * 2 ^ p + 2 ^ p / 2 < \<bar>x\<bar> * 2 ^ 1074" "\<bar>x\<bar> * 2 ^ 1074 < real (m + 1) * 2 ^ p"
    and y: "\<bar>y\<bar> * 2 ^ 1074 = real ((m + 1) * 2 ^ p)" "x < 0 \<longleftrightarrow> y < 0"
  shows "RCONST x = RCONST y"
proof -
  have "m + 1 < 2 ^ 53 \<or> m + 1 = 2 ^ 53" using m(1) by auto
  then have d: "is_double_nat ((m + 1) * 2 ^ p)"
  proof
    assume "m + 1 < 2 ^ 53"
    then show ?thesis using m(3) by (rule is_double_natI)
  next
    assume e: "m + 1 = 2 ^ 53"
    have "(2::nat) ^ (53 + p) < 2 ^ 2098" using m(4) unfolding e by (simp add: power_add)
    then have "53 + p < 2098" by (simp only: power_strict_increasing_iff)
    then have "is_double_nat (2 ^ 52 * 2 ^ (p + 1))" by (intro is_double_natI) simp_all
    then show ?thesis unfolding e by simp
  qed
  have "RCONST x = of_scaled (x < 0) ((m + 1) * 2 ^ p)"
    unfolding RCONST_def round_scaled_up [OF m(1,2) X] using m(4) by simp
  moreover have "RCONST y = of_scaled (y < 0) ((m + 1) * 2 ^ p)"
    unfolding RCONST_def y(1) by (rule round_scaled_exact [OF d])
  ultimately show ?thesis using y(2) by simp
qed

lemma is_double_real_numeral: "numeral n < (2::real) ^ 53 \<Longrightarrow> is_double_real (numeral n)"
proof -
  assume a: "numeral n < (2::real) ^ 53"
  have "real (numeral n) < real (2 ^ 53)" using a by simp
  then have "(numeral n :: nat) < 2 ^ 53" by (simp only: of_nat_less_iff)
  then show ?thesis
    by (intro is_double_realI [where m = "numeral n" and e = 1074]) simp_all
qed

lemma is_double_real_1 [simp]: "is_double_real 1"
  by (rule is_double_realI [where m = 1 and e = 1074]) simp_all

lemma sqrt_realtype_RCONST:
  assumes "is_double_real a" "0 < a"
  shows "sqrt_realtype (RCONST a) = RCONST (sqrt a)"
proof -
  note A = valof_RCONST [OF assms(1)]
  have "\<not> is_nan (RCONST a)" "\<not> is_inf (RCONST a)" using finite_not_special A(2) by blast+
  moreover have "\<not> is_zero (RCONST a)" using is_zero_iff [OF A(2)] A(1) assms(2) by simp
  ultimately show ?thesis using A assms(2) by (simp add: sqrt_realtype_def)
qed

lemma RCONST_uminus:
  assumes "is_double_real a" "a \<noteq> 0"
  shows "- RCONST a = RCONST (- a)"
proof -
  from assms obtain K where K: "is_double_nat K" "\<bar>a\<bar> * 2 ^ 1074 = real K"
    unfolding is_double_real_def by blast
  have n: "- of_scaled s K = of_scaled (\<not> s) K" for s
    by (simp add: of_scaled_def uminus_realtype_def Let_def)
  have s: "(- a < 0) = (\<not> a < 0)" using assms(2) by auto
  have "RCONST a = of_scaled (a < 0) K"
    unfolding RCONST_def K(2) by (rule round_scaled_exact [OF K(1)])
  moreover have "\<bar>- a\<bar> * 2 ^ 1074 = real K" using K(2) by simp
  then have "RCONST (- a) = of_scaled (\<not> a < 0) K"
    unfolding RCONST_def s by (simp only: round_scaled_exact [OF K(1)])
  ultimately show ?thesis using n by simp
qed

lemmas realtype_eval =
  is_double_real_numeral RCONST_plus RCONST_minus RCONST_times RCONST_divide RCONST_less
  RCONST_eq_iff sqrt_realtype_RCONST realtype_of_int_def ZERO_def ONE_def

subsection \<open>The maximum order never increases\<close>

lemma CVodeSetMaxOrd_qmax_le:
  "CVodeSetMaxOrd (Some m) maxord = (r, Some m') \<Longrightarrow> cv_qmax m' \<le> cv_qmax m"
  by (auto simp: CVodeSetMaxOrd_def split: if_splits)

lemma CVodeSetMaxOrd_Some:
  "\<exists>r m'. CVodeSetMaxOrd (Some m) maxord = (r, Some m') \<and> cv_qmax m' \<le> cv_qmax m"
  by (auto simp: CVodeSetMaxOrd_def)

lemma CVodeSetMaxOrd_calls_qmax_le:
  "\<exists>m'. CVodeSetMaxOrd_calls (Some m) ords = Some m' \<and> cv_qmax m' \<le> cv_qmax m"
proof (induction ords arbitrary: m)
  case Nil
  show ?case by simp
next
  case (Cons maxord rest)
  obtain r m1 where step: "CVodeSetMaxOrd (Some m) maxord = (r, Some m1)"
    and le1: "cv_qmax m1 \<le> cv_qmax m"
    using CVodeSetMaxOrd_Some by blast
  obtain m' where "CVodeSetMaxOrd_calls (Some m1) rest = Some m'" "cv_qmax m' \<le> cv_qmax m1"
    using Cons.IH by blast
  with step le1 show ?case by auto
qed

lemma CVodeCreate_qmax:
  "CVodeCreate raw ur lmm iter = Some m0 \<Longrightarrow>
   cv_qmax m0 = (if lmm = ADAMS then 12 else 5)"
  by (auto simp: CVodeCreate_def Let_def ADAMS_Q_MAX_def BDF_Q_MAX_def
      split: if_splits option.splits)

text \<open>
  Claim C10. \<open>CVodeSetMaxOrd\<close> rejects every \<open>maxord \<le> 0\<close> and every \<open>maxord\<close> above the
  current \<open>qmax\<close> with the illegal-input code, leaving the block as it was, and otherwise
  stores \<open>maxord\<close> in \<open>qmax\<close>; a successful call never raises \<open>qmax\<close>; and after any
  sequence of calls on a handle that \<open>CVodeCreate\<close> returned, \<open>qmax\<close> is at most the
  ceiling of the method family, 12 for Adams and 5 for BDF.
\<close>

theorem CVodeSetMaxOrd_never_increases:
  "(maxord \<le> 0 \<or> cv_qmax m < maxord \<longrightarrow>
      CVodeSetMaxOrd (Some m) maxord = (CVS_ILL_INPUT, Some m))
   \<and> (0 < maxord \<and> maxord \<le> cv_qmax m \<longrightarrow>
      CVodeSetMaxOrd (Some m) maxord = (SUCCESS, Some (m\<lparr>cv_qmax := maxord\<rparr>)))
   \<and> (CVodeSetMaxOrd (Some m) maxord = (SUCCESS, Some m') \<longrightarrow> cv_qmax m' \<le> cv_qmax m)
   \<and> (CVodeCreate raw ur lmm iter = Some m0 \<longrightarrow>
      (\<exists>mk. CVodeSetMaxOrd_calls (Some m0) ords = Some mk
         \<and> cv_qmax mk \<le> (if lmm = ADAMS then 12 else 5)))"
proof (intro conjI impI)
  assume "maxord \<le> 0 \<or> cv_qmax m < maxord"
  then show "CVodeSetMaxOrd (Some m) maxord = (CVS_ILL_INPUT, Some m)"
    by (auto simp: CVodeSetMaxOrd_def)
next
  assume "0 < maxord \<and> maxord \<le> cv_qmax m"
  then show "CVodeSetMaxOrd (Some m) maxord = (SUCCESS, Some (m\<lparr>cv_qmax := maxord\<rparr>))"
    by (auto simp: CVodeSetMaxOrd_def)
next
  assume "CVodeSetMaxOrd (Some m) maxord = (SUCCESS, Some m')"
  then show "cv_qmax m' \<le> cv_qmax m" by (rule CVodeSetMaxOrd_qmax_le)
next
  assume c: "CVodeCreate raw ur lmm iter = Some m0"
  obtain mk where "CVodeSetMaxOrd_calls (Some m0) ords = Some mk" "cv_qmax mk \<le> cv_qmax m0"
    using CVodeSetMaxOrd_calls_qmax_le by blast
  with CVodeCreate_qmax [OF c]
  show "\<exists>mk. CVodeSetMaxOrd_calls (Some m0) ords = Some mk
         \<and> cv_qmax mk \<le> (if lmm = ADAMS then 12 else 5)"
    by auto
qed

theorem CVodeSetMaxOrd_never_increases_witness:
  "CVodeSetMaxOrd (Some (cv_mem_zero\<lparr>cv_qmax := 5\<rparr>)) 0
      = (CVS_ILL_INPUT, Some (cv_mem_zero\<lparr>cv_qmax := 5\<rparr>))
   \<and> CVodeSetMaxOrd (Some (cv_mem_zero\<lparr>cv_qmax := 5\<rparr>)) 3
      = (SUCCESS, Some (cv_mem_zero\<lparr>cv_qmax := 3\<rparr>))
   \<and> cv_qmax (cv_mem_zero\<lparr>cv_qmax := 3\<rparr>) \<le> cv_qmax (cv_mem_zero\<lparr>cv_qmax := 5\<rparr>)
   \<and> (\<exists>mk. CVodeSetMaxOrd_calls (CVodeCreate (Some cv_mem_zero) (RCONST (1 / 2 ^ 53)) BDF NEWTON) [7, 3, 4, 0]
            = Some mk \<and> cv_qmax mk \<le> 5)"
proof -
  let ?m5 = "cv_mem_zero\<lparr>cv_qmax := 5\<rparr>"
  let ?m3 = "cv_mem_zero\<lparr>cv_qmax := 3\<rparr>"
  let ?c = "CVodeCreate (Some cv_mem_zero) (RCONST (1 / 2 ^ 53)) BDF NEWTON"
  have c: "?c = Some (the ?c)"
    by (simp add: CVodeCreate_def BDF_def ADAMS_def NEWTON_def FUNCTIONAL_def)
  have s: "CVodeSetMaxOrd (Some ?m5) 3 = (SUCCESS, Some ?m3)"
    by (simp add: CVodeSetMaxOrd_def)
  have bdf: "BDF \<noteq> ADAMS" by (simp add: BDF_def ADAMS_def)
  from CVodeSetMaxOrd_never_increases
         [where maxord = 0 and m = ?m5 and m' = ?m3 and raw = "Some cv_mem_zero"
            and ur = "RCONST (1 / 2 ^ 53)" and lmm = BDF and iter = NEWTON and ?m0.0 = "the ?c"
            and ords = "[7, 3, 4, 0]"]
       CVodeSetMaxOrd_never_increases
         [where maxord = 3 and m = ?m5 and m' = ?m3 and raw = "Some cv_mem_zero"
            and ur = "RCONST (1 / 2 ^ 53)" and lmm = BDF and iter = NEWTON and ?m0.0 = "the ?c"
            and ords = "[7, 3, 4, 0]"]
       c s bdf
  show ?thesis by simp
qed

subsection \<open>The STAGGERED1 counter outputs\<close>

text \<open>
  Claim C6. On a non-null block with sensitivities enabled,
  \<open>CVodeGetNumStgrSensNonlinSolvIters\<close> and \<open>CVodeGetNumStgrSensNonlinSolvConvFails\<close>
  return \<open>OKAY\<close> and leave the integer store as it was: the assignment changes the
  parameter variable only (to \<open>nniS1\<close>, respectively \<open>ncfnS1\<close>, when \<open>ism\<close> is
  \<open>STAGGERED1\<close>, to \<open>NULL\<close> otherwise), whatever \<open>ism\<close> is.
\<close>

theorem CVodeGetNumStgrSens_store_unchanged:
  "cv_sensi m \<Longrightarrow>
     CVodeGetNumStgrSensNonlinSolvIters (Some m) p store
       = (OKAY, if cv_ism m = STAGGERED1 then cv_nniS1 m else None, store)
   \<and> CVodeGetNumStgrSensNonlinSolvConvFails (Some m) p store
       = (OKAY, if cv_ism m = STAGGERED1 then cv_ncfnS1 m else None, store)"
  by (simp add: CVodeGetNumStgrSensNonlinSolvIters_def CVodeGetNumStgrSensNonlinSolvConvFails_def)

theorem CVodeGetNumStgrSens_store_unchanged_witness:
  "CVodeGetNumStgrSensNonlinSolvIters
      (Some (cv_mem_zero\<lparr>cv_sensi := True, cv_ism := STAGGERED1, cv_nniS1 := Some 8\<rparr>))
      (Some 3) ((\<lambda>_. 0)(3 := 17, 8 := 5))
     = (OKAY, Some 8, (\<lambda>_. 0)(3 := 17, 8 := 5))"
  using CVodeGetNumStgrSens_store_unchanged
          [of "cv_mem_zero\<lparr>cv_sensi := True, cv_ism := STAGGERED1, cv_nniS1 := Some 8\<rparr>"
              "Some 3" "(\<lambda>_. 0)(3 := 17, 8 := 5)"]
  by simp

subsection \<open>Stability limit detection: the saved data\<close>

lemma list6: "length xs = 6 \<Longrightarrow> \<exists>a b c d e f. xs = [a, b, c, d, e, f]"
  by (auto simp: numeral_eq_Suc length_Suc_conv)

lemma list4: "length xs = 4 \<Longrightarrow> \<exists>a b c d. xs = [a, b, c, d]"
  by (auto simp: numeral_eq_Suc length_Suc_conv)

lemma upt_2_6: "[2..<6] = [2, 3, 4, 5]" by (simp add: upt_rec)
lemma upt_1_4: "[1..<4] = [1, 2, 3]" by (simp add: upt_rec)

lemma ssdat_shift:
  "fold (\<lambda>k. fold (\<lambda>i ssdat. ssdat[i := (ssdat ! i)[k := ssdat ! (i - 1) ! k]]) (rev [2..<6]))
         [1..<4]
         [r0, [b0, b1, b2, b3], [c0, c1, c2, c3], [d0, d1, d2, d3], [e0, e1, e2, e3], [a1, a2, a3, a4]]
       = [r0, [b0, b1, b2, b3], [c0, b1, b2, b3], [d0, c1, c2, c3], [e0, d1, d2, d3], [a1, e1, e2, e3]]"
  unfolding upt_2_6 upt_1_4 by simp

lemma CVBDFStab_ssdat:
  assumes q: "3 \<le> cv_q m"
  shows "cv_ssdat (CVBDFStab sldet m) =
    (let q = cv_q m;
         ssdat = fold (\<lambda>k. fold (\<lambda>i ssdat. ssdat[i := (ssdat ! i)[k := ssdat ! (i - 1) ! k]])
                                      (rev [2..<6]))
                               [1..<4] (cv_ssdat m);
         factorial = fold (\<lambda>i factorial. factorial * int i) [1..<nat q] (1::int);
         sq = realtype_of_int (factorial * q * (q + 1)) * cv_acnrm m / (cv_tq m ! 5);
         sqm1 = realtype_of_int (factorial * q) * N_VWrmsNorm (cv_zn m ! nat q) (cv_ewt m);
         sqm2 = realtype_of_int factorial * N_VWrmsNorm (cv_zn m ! nat (q - 1)) (cv_ewt m);
         ssdat = ssdat[1 := (ssdat ! 1)[1 := sqm2 * sqm2]];
         ssdat = ssdat[1 := (ssdat ! 1)[2 := sqm1 * sqm1]];
         ssdat = ssdat[1 := (ssdat ! 1)[3 := sq * sq]]
     in ssdat)"
proof -
  define m1 where "m1 =
           (if cv_q m \<ge> 3 then
              let ssdat = fold (\<lambda>k. fold (\<lambda>i ssdat. ssdat[i := (ssdat ! i)[k := ssdat ! (i - 1) ! k]])
                                      (rev [2..<6]))
                               [1..<4] (cv_ssdat m);
                  factorial = fold (\<lambda>i factorial. factorial * int i) [1..<nat (cv_q m)] (1::int);
                  sq = realtype_of_int (factorial * cv_q m * (cv_q m + 1)) * cv_acnrm m / (cv_tq m ! 5);
                  sqm1 = realtype_of_int (factorial * cv_q m)
                           * N_VWrmsNorm (cv_zn m ! nat (cv_q m)) (cv_ewt m);
                  sqm2 = realtype_of_int factorial
                           * N_VWrmsNorm (cv_zn m ! nat (cv_q m - 1)) (cv_ewt m);
                  ssdat = ssdat[1 := (ssdat ! 1)[1 := sqm2 * sqm2]];
                  ssdat = ssdat[1 := (ssdat ! 1)[2 := sqm1 * sqm1]];
                  ssdat = ssdat[1 := (ssdat ! 1)[3 := sq * sq]]
              in m\<lparr>cv_ssdat := ssdat\<rparr>
            else m)"
  have "CVBDFStab sldet m =
     (let q = cv_q m; cv_mem = m1
      in if cv_qprime cv_mem \<ge> q then
          (if q \<ge> 3 \<and> cv_nscon cv_mem \<ge> q + 5 then
             let ldflag = sldet cv_mem
             in if ldflag > 3 then
                  let cv_mem = cv_mem\<lparr>cv_qprime := q - 1\<rparr>;
                      cv_mem = cv_mem\<lparr>cv_eta := cv_etaqm1 cv_mem\<rparr>;
                      cv_mem = cv_mem\<lparr>cv_eta := MIN_rt (cv_eta cv_mem) (cv_etamax cv_mem)\<rparr>;
                      cv_mem = cv_mem\<lparr>cv_eta := cv_eta cv_mem
                                 / MAX_rt ONE (\<bar>cv_h cv_mem\<bar> * cv_hmax_inv cv_mem * cv_eta cv_mem)\<rparr>;
                      cv_mem = cv_mem\<lparr>cv_hprime := cv_h cv_mem * cv_eta cv_mem\<rparr>
                  in cv_mem\<lparr>cv_nor := cv_nor cv_mem + 1\<rparr>
                else cv_mem
           else cv_mem)
        else cv_mem\<lparr>cv_nscon := 0\<rparr>)"
    unfolding CVBDFStab_def m1_def by (simp only: Let_def)
  then have "cv_ssdat (CVBDFStab sldet m) = cv_ssdat m1"
    by (simp add: Let_def)
  also have "cv_ssdat m1 =
    (let q = cv_q m;
         ssdat = fold (\<lambda>k. fold (\<lambda>i ssdat. ssdat[i := (ssdat ! i)[k := ssdat ! (i - 1) ! k]])
                                      (rev [2..<6]))
                               [1..<4] (cv_ssdat m);
         factorial = fold (\<lambda>i factorial. factorial * int i) [1..<nat q] (1::int);
         sq = realtype_of_int (factorial * q * (q + 1)) * cv_acnrm m / (cv_tq m ! 5);
         sqm1 = realtype_of_int (factorial * q) * N_VWrmsNorm (cv_zn m ! nat q) (cv_ewt m);
         sqm2 = realtype_of_int factorial * N_VWrmsNorm (cv_zn m ! nat (q - 1)) (cv_ewt m);
         ssdat = ssdat[1 := (ssdat ! 1)[1 := sqm2 * sqm2]];
         ssdat = ssdat[1 := (ssdat ! 1)[2 := sqm1 * sqm1]];
         ssdat = ssdat[1 := (ssdat ! 1)[3 := sq * sq]]
     in ssdat)"
    unfolding m1_def using q by (simp add: Let_def)
  finally show ?thesis .
qed

lemma factorial_loop: "fold (\<lambda>i factorial. factorial * int i) [1..<n] (1::int) = int (fact (n - 1))"
proof (induction n)
  case 0
  show ?case by simp
next
  case (Suc n)
  show ?case
  proof (cases "n = 0")
    case True
    then show ?thesis by simp
  next
    case False
    then obtain k where k: "n = Suc k" by (cases n) auto
    have "[1..<Suc n] = [1..<n] @ [n]" using False by simp
    then show ?thesis using Suc.IH k by (simp add: algebra_simps)
  qed
qed

lemma CVBDFStab_bdf3:
  "cv_ssdat (CVBDFStab CVsldet_const cv_mem_bdf3)
     = map (map RCONST)
         [[0, 0, 0, 0], [0, 16, 144, 576], [0, 1, 2, 3], [0, 4, 5, 6], [0, 7, 8, 9], [0, 10, 11, 12]]"
proof -
  have q: "3 \<le> cv_q cv_mem_bdf3" by (simp add: cv_mem_bdf3_def)
  have s: "cv_ssdat cv_mem_bdf3
      = [[RCONST 0, RCONST 0, RCONST 0, RCONST 0], [RCONST 0, RCONST 1, RCONST 2, RCONST 3],
         [RCONST 0, RCONST 4, RCONST 5, RCONST 6], [RCONST 0, RCONST 7, RCONST 8, RCONST 9],
         [RCONST 0, RCONST 10, RCONST 11, RCONST 12], [RCONST 0, RCONST 13, RCONST 14, RCONST 15]]"
    by (simp add: cv_mem_bdf3_def)
  have qv: "cv_q cv_mem_bdf3 = 3" by (simp add: cv_mem_bdf3_def)
  have fac: "fold (\<lambda>i factorial. factorial * int i) [1..<nat (cv_q cv_mem_bdf3)] (1::int) = 2"
    unfolding factorial_loop qv by (simp add: numeral_2_eq_2)
  have w: "N_VWrmsNorm [RCONST 2] [RCONST 1] = RCONST 2"
    by (simp add: N_VWrmsNorm_def RSqrt_def realtype_eval)
  show ?thesis
    unfolding CVBDFStab_ssdat [OF q] Let_def s ssdat_shift fac
    by (simp add: cv_mem_bdf3_def w realtype_eval)
qed

text \<open>
  Claim C5, as amended. At a BDF order \<open>3 \<le> q \<le> 5\<close>, with \<open>ssdat\<close> a 6 by 4 array,
  \<open>CVBDFStab\<close> moves rows 1 to 4 of columns 1 to 3 down by one row and stores in row 1
  the squares of \<open>sqm2 = (q-1)! * wrms(zn[q-1], ewt)\<close>,
  \<open>sqm1 = (q-1)! * q * wrms(zn[q], ewt)\<close> and \<open>sq = (q-1)! * q * (q+1) * acnrm / tq[5]\<close>:
  the factor the loop computes is the factorial of \<open>q - 1\<close>, not of \<open>q\<close>.
\<close>

theorem CVBDFStab_saves_scaled_norms:
  assumes q: "3 \<le> cv_q m" "cv_q m \<le> 5"
      and ss6: "length (cv_ssdat m) = 6" and ss4: "\<forall>row\<in>set (cv_ssdat m). length row = 4"
  shows "(\<forall>i\<in>{2..5}. \<forall>k\<in>{1..3}. cv_ssdat (CVBDFStab sldet m) ! i ! k = cv_ssdat m ! (i - 1) ! k)
     \<and> cv_ssdat (CVBDFStab sldet m) ! 1 ! 1
         = (realtype_of_int (fact (nat (cv_q m) - 1))
              * N_VWrmsNorm (cv_zn m ! nat (cv_q m - 1)) (cv_ewt m))
           * (realtype_of_int (fact (nat (cv_q m) - 1))
              * N_VWrmsNorm (cv_zn m ! nat (cv_q m - 1)) (cv_ewt m))
     \<and> cv_ssdat (CVBDFStab sldet m) ! 1 ! 2
         = (realtype_of_int (fact (nat (cv_q m) - 1) * cv_q m)
              * N_VWrmsNorm (cv_zn m ! nat (cv_q m)) (cv_ewt m))
           * (realtype_of_int (fact (nat (cv_q m) - 1) * cv_q m)
              * N_VWrmsNorm (cv_zn m ! nat (cv_q m)) (cv_ewt m))
     \<and> cv_ssdat (CVBDFStab sldet m) ! 1 ! 3
         = (realtype_of_int (fact (nat (cv_q m) - 1) * cv_q m * (cv_q m + 1))
              * cv_acnrm m / (cv_tq m ! 5))
           * (realtype_of_int (fact (nat (cv_q m) - 1) * cv_q m * (cv_q m + 1))
              * cv_acnrm m / (cv_tq m ! 5))"
proof -
  have ss: "length (cv_ssdat m) = 6" "\<forall>i<6. length (cv_ssdat m ! i) = 4"
    using ss6 ss4 by auto
  from list6 [OF ss(1)] obtain r0 r1 r2 r3 r4 r5 where s6: "cv_ssdat m = [r0, r1, r2, r3, r4, r5]"
    by blast
  from ss(2) s6 have l: "length r1 = 4" "length r2 = 4" "length r3 = 4" "length r4 = 4" "length r5 = 4"
    by (auto simp: nth_Cons' numeral_eq_Suc less_Suc_eq all_conj_distrib)
  from l(1) list4 obtain b0 b1 b2 b3 where r1: "r1 = [b0, b1, b2, b3]" by blast
  from l(2) list4 obtain c0 c1 c2 c3 where r2: "r2 = [c0, c1, c2, c3]" by blast
  from l(3) list4 obtain d0 d1 d2 d3 where r3: "r3 = [d0, d1, d2, d3]" by blast
  from l(4) list4 obtain e0 e1 e2 e3 where r4: "r4 = [e0, e1, e2, e3]" by blast
  from l(5) list4 obtain a1 a2 a3 a4 where r5: "r5 = [a1, a2, a3, a4]" by blast
  have ssm: "cv_ssdat m
        = [r0, [b0, b1, b2, b3], [c0, c1, c2, c3], [d0, d1, d2, d3], [e0, e1, e2, e3], [a1, a2, a3, a4]]"
    using s6 r1 r2 r3 r4 r5 by simp
  have sh: "fold (\<lambda>k. fold (\<lambda>i ssdat. ssdat[i := (ssdat ! i)[k := ssdat ! (i - 1) ! k]]) (rev [2..<6]))
         [1..<4] (cv_ssdat m)
       = [r0, [b0, b1, b2, b3], [c0, b1, b2, b3], [d0, c1, c2, c3], [e0, d1, d2, d3], [a1, e1, e2, e3]]"
    unfolding ssm by (rule ssdat_shift)
  have res: "cv_ssdat (CVBDFStab sldet m) =
     [r0,
      [b0,
       (realtype_of_int (fact (nat (cv_q m) - 1)) * N_VWrmsNorm (cv_zn m ! nat (cv_q m - 1)) (cv_ewt m))
        * (realtype_of_int (fact (nat (cv_q m) - 1)) * N_VWrmsNorm (cv_zn m ! nat (cv_q m - 1)) (cv_ewt m)),
       (realtype_of_int (fact (nat (cv_q m) - 1) * cv_q m) * N_VWrmsNorm (cv_zn m ! nat (cv_q m)) (cv_ewt m))
        * (realtype_of_int (fact (nat (cv_q m) - 1) * cv_q m) * N_VWrmsNorm (cv_zn m ! nat (cv_q m)) (cv_ewt m)),
       (realtype_of_int (fact (nat (cv_q m) - 1) * cv_q m * (cv_q m + 1)) * cv_acnrm m / (cv_tq m ! 5))
        * (realtype_of_int (fact (nat (cv_q m) - 1) * cv_q m * (cv_q m + 1)) * cv_acnrm m / (cv_tq m ! 5))],
      [c0, b1, b2, b3], [d0, c1, c2, c3], [e0, d1, d2, d3], [a1, e1, e2, e3]]"
    unfolding CVBDFStab_ssdat [OF q(1)] sh factorial_loop Let_def by simp
  have shift: "\<forall>i\<in>{2..5}. \<forall>k\<in>{1..3}. cv_ssdat (CVBDFStab sldet m) ! i ! k = cv_ssdat m ! (i - 1) ! k"
  proof (intro ballI)
    fix i k :: nat
    assume "i \<in> {2..5}" "k \<in> {1..3}"
    then have "i = 2 \<or> i = 3 \<or> i = 4 \<or> i = 5" "k = 1 \<or> k = 2 \<or> k = 3" by auto
    then show "cv_ssdat (CVBDFStab sldet m) ! i ! k = cv_ssdat m ! (i - 1) ! k"
      unfolding res ssm by (auto simp: nth_Cons' )
  qed
  show ?thesis
    using shift unfolding res by simp
qed

theorem CVBDFStab_saves_scaled_norms_witness:
  "cv_ssdat (CVBDFStab CVsldet_const cv_mem_bdf3) ! 1 ! 1 = RCONST 16
   \<and> cv_ssdat (CVBDFStab CVsldet_const cv_mem_bdf3) ! 1 ! 2 = RCONST 144
   \<and> cv_ssdat (CVBDFStab CVsldet_const cv_mem_bdf3) ! 1 ! 3 = RCONST 576
   \<and> cv_ssdat (CVBDFStab CVsldet_const cv_mem_bdf3) ! 2 ! 1 = RCONST 1
   \<and> cv_ssdat (CVBDFStab CVsldet_const cv_mem_bdf3) ! 5 ! 3 = RCONST 12"
proof -
  have q: "3 \<le> cv_q cv_mem_bdf3" "cv_q cv_mem_bdf3 \<le> 5"
    by (simp_all add: cv_mem_bdf3_def)
  have l: "length (cv_ssdat cv_mem_bdf3) = 6" "\<forall>row\<in>set (cv_ssdat cv_mem_bdf3). length row = 4"
    by (simp_all add: cv_mem_bdf3_def)
  have f: "fact (nat 3 - 1) = (2::int)" by (simp add: numeral_2_eq_2)
  have w: "N_VWrmsNorm [RCONST 2] [RCONST 1] = RCONST 2"
    by (simp add: N_VWrmsNorm_def RSqrt_def realtype_eval)
  note t = CVBDFStab_saves_scaled_norms [OF q l, of CVsldet_const]
  from t have sh: "\<forall>i\<in>{2..5}. \<forall>k\<in>{1..3}.
         cv_ssdat (CVBDFStab CVsldet_const cv_mem_bdf3) ! i ! k = cv_ssdat cv_mem_bdf3 ! (i - 1) ! k"
    by (rule conjunct1)
  from sh have s21: "cv_ssdat (CVBDFStab CVsldet_const cv_mem_bdf3) ! 2 ! 1
                       = cv_ssdat cv_mem_bdf3 ! (2 - 1) ! 1"
    by simp
  from sh have s53: "cv_ssdat (CVBDFStab CVsldet_const cv_mem_bdf3) ! 5 ! 3
                       = cv_ssdat cv_mem_bdf3 ! (5 - 1) ! 3"
    by simp
  from t f w have top:
    "cv_ssdat (CVBDFStab CVsldet_const cv_mem_bdf3) ! 1 ! 1 = RCONST 16
     \<and> cv_ssdat (CVBDFStab CVsldet_const cv_mem_bdf3) ! 1 ! 2 = RCONST 144
     \<and> cv_ssdat (CVBDFStab CVsldet_const cv_mem_bdf3) ! 1 ! 3 = RCONST 576"
    by (simp add: cv_mem_bdf3_def realtype_eval)
  from s21 have a: "cv_ssdat (CVBDFStab CVsldet_const cv_mem_bdf3) ! 2 ! 1 = RCONST 1"
    by (simp add: cv_mem_bdf3_def)
  from s53 have b: "cv_ssdat (CVBDFStab CVsldet_const cv_mem_bdf3) ! 5 ! 3 = RCONST 12"
    by (simp add: cv_mem_bdf3_def)
  from top a b show ?thesis by simp
qed

text \<open>
  The claim as the specification words it, with the factorial of \<open>q\<close>, fails on
  \<open>cv_mem_bdf3\<close>: at \<open>q = 3\<close>, \<open>acnrm = 1\<close> and \<open>tq[5] = 1\<close> the routine stores
  \<open>(2 * 3 * 4)\<^sup>2 = 576\<close> in \<open>ssdat[1][3]\<close>, and \<open>(3! * 3 * 4)\<^sup>2\<close> is \<open>5184\<close>;
  all the products are exact in \<open>realtype\<close>.
\<close>

theorem CVBDFStab_factorial_counterexample:
  "cv_q cv_mem_bdf3 = 3
   \<and> cv_ssdat (CVBDFStab CVsldet_const cv_mem_bdf3) ! 1 ! 3 = RCONST 576
   \<and> cv_ssdat (CVBDFStab CVsldet_const cv_mem_bdf3) ! 1 ! 3
       \<noteq> (realtype_of_int (fact (nat (cv_q cv_mem_bdf3)) * cv_q cv_mem_bdf3
                               * (cv_q cv_mem_bdf3 + 1))
            * cv_acnrm cv_mem_bdf3 / (cv_tq cv_mem_bdf3 ! 5))
         * (realtype_of_int (fact (nat (cv_q cv_mem_bdf3)) * cv_q cv_mem_bdf3
                               * (cv_q cv_mem_bdf3 + 1))
            * cv_acnrm cv_mem_bdf3 / (cv_tq cv_mem_bdf3 ! 5))"
proof -
  have v: "cv_ssdat (CVBDFStab CVsldet_const cv_mem_bdf3) ! 1 ! 3 = RCONST 576"
    by (simp add: CVBDFStab_bdf3)
  have f3: "fact 3 = (6::int)" by (simp add: fact_numeral)
  show ?thesis
    using v by (simp add: cv_mem_bdf3_def f3 realtype_eval)
qed

subsection \<open>Prediction and its undoing\<close>

lemma fold_preserves:
  assumes "\<And>s j. I s \<Longrightarrow> j \<in> set js \<Longrightarrow> I (st j s) \<and> r (st j s) = r s"
    and "I s"
  shows "I (fold st js s) \<and> r (fold st js s) = r s"
  using assms
proof (induction js arbitrary: s)
  case Nil
  then show ?case by simp
next
  case (Cons j js)
  have 1: "I (st j s) \<and> r (st j s) = r s" using Cons.prems by simp
  have "I (fold st js (st j s)) \<and> r (fold st js (st j s)) = r (st j s)"
    using Cons.IH [of "st j s"] Cons.prems(1) 1 by simp
  with 1 show ?case by simp
qed

lemma sweeps_preserve:
  assumes step: "\<And>s j. I s \<Longrightarrow> 1 \<le> j \<Longrightarrow> j \<le> q \<Longrightarrow> I (st j s) \<and> r (st j s) = r s"
    and "I s"
  shows "I (fold (\<lambda>k. fold st (rev [k..<Suc q])) [1..<Suc K] s)
       \<and> r (fold (\<lambda>k. fold st (rev [k..<Suc q])) [1..<Suc K] s) = r s"
proof (rule fold_preserves [where I = I and r = r])
  fix s k assume "I s" "k \<in> set [1..<Suc K]"
  then have k: "1 \<le> k" by auto
  show "I (fold st (rev [k..<Suc q]) s) \<and> r (fold st (rev [k..<Suc q]) s) = r s"
  proof (rule fold_preserves [where I = I and r = r])
    fix s j assume "I s" "j \<in> set (rev [k..<Suc q])"
    then show "I (st j s) \<and> r (st j s) = r s" using step k by auto
  qed fact
qed fact

lemma passes_preserve:
  assumes step: "\<And>s j is. I s \<Longrightarrow> 1 \<le> j \<Longrightarrow> j \<le> q \<Longrightarrow> is \<in> set iss \<Longrightarrow>
                   I (st is j s) \<and> r (st is j s) = r s"
    and "I s"
  shows "I (fold (\<lambda>is. fold (\<lambda>k. fold (st is) (rev [k..<Suc q])) [1..<Suc q]) iss s)
       \<and> r (fold (\<lambda>is. fold (\<lambda>k. fold (st is) (rev [k..<Suc q])) [1..<Suc q]) iss s) = r s"
proof (rule fold_preserves [where I = I and r = r])
  fix s "is" assume "I s" "is \<in> set iss"
  then show "I (fold (\<lambda>k. fold (st is) (rev [k..<Suc q])) [1..<Suc q] s)
       \<and> r (fold (\<lambda>k. fold (st is) (rev [k..<Suc q])) [1..<Suc q] s) = r s"
    using sweeps_preserve [where I = I and q = q and K = q and r = r and st = "st is" and s = s] step
    by blast
qed fact


lemma N_VLinearSum_length: "length (N_VLinearSum a x b y) = min (length x) (length y)"
  by (simp add: N_VLinearSum_def)

lemma zn_step_frame:
  assumes I: "q < length zs \<and> (\<forall>j\<le>q. length (zs ! j) = N)"
    and j: "1 \<le> j" "j \<le> q" and i: "q \<le> i"
  shows "(q < length (zs[j - 1 := N_VLinearSum b (zs ! (j - 1)) a (zs ! j)])
          \<and> (\<forall>i\<le>q. length (zs[j - 1 := N_VLinearSum b (zs ! (j - 1)) a (zs ! j)] ! i) = N))
     \<and> (length (zs[j - 1 := N_VLinearSum b (zs ! (j - 1)) a (zs ! j)]),
         zs[j - 1 := N_VLinearSum b (zs ! (j - 1)) a (zs ! j)] ! i) = (length zs, zs ! i)"
proof -
  have l: "j - 1 < length zs" "length (zs ! (j - 1)) = N" "length (zs ! j) = N"
    using I j by auto
  show ?thesis
    using I l j i by (auto simp: nth_list_update N_VLinearSum_length)
qed

lemma znS_step_frame:
  assumes I: "q < length s \<and> (\<forall>j\<le>q. length (s ! j) = NS \<and> (\<forall>i<NS. length (s ! j ! i) = N))"
    and j: "1 \<le> j" "j \<le> q" and si: "si < NS" and i: "q \<le> i"
  shows "(q < length (s[j - 1 := (s ! (j - 1))[si := N_VLinearSum b (s ! (j - 1) ! si) a (s ! j ! si)]])
          \<and> (\<forall>j'\<le>q. length (s[j - 1 := (s ! (j - 1))[si := N_VLinearSum b (s ! (j - 1) ! si) a (s ! j ! si)]] ! j') = NS
                \<and> (\<forall>i<NS. length (s[j - 1 := (s ! (j - 1))[si := N_VLinearSum b (s ! (j - 1) ! si) a (s ! j ! si)]] ! j' ! i) = N)))
     \<and> (length (s[j - 1 := (s ! (j - 1))[si := N_VLinearSum b (s ! (j - 1) ! si) a (s ! j ! si)]]),
         s[j - 1 := (s ! (j - 1))[si := N_VLinearSum b (s ! (j - 1) ! si) a (s ! j ! si)]] ! i)
        = (length s, s ! i)"
proof -
  have l: "j - 1 < length s" "j - 1 \<le> q" "length (s ! (j - 1)) = NS" "length (s ! j) = NS"
    "length (s ! (j - 1) ! si) = N" "length (s ! j ! si) = N"
    using I j si by auto
  have len: "\<forall>j'\<le>q. length (s ! j') = NS \<and> (\<forall>i<NS. length (s ! j' ! i) = N)" using I by simp
  show ?thesis
    using l si len I j i
    by (auto simp: nth_list_update N_VLinearSum_length)
qed

lemma history_frame:
  assumes I: "q < length zs \<and> (\<forall>j\<le>q. length (zs ! j) = N)"
  shows "(q < length (fold (\<lambda>k. fold (\<lambda>j zn. zn[j - 1 := N_VLinearSum b (zn ! (j - 1)) a (zn ! j)])
                         (rev [k..<Suc q])) [1..<Suc q] zs)
          \<and> (\<forall>j\<le>q. length (fold (\<lambda>k. fold (\<lambda>j zn. zn[j - 1 := N_VLinearSum b (zn ! (j - 1)) a (zn ! j)])
                         (rev [k..<Suc q])) [1..<Suc q] zs ! j) = N))
       \<and> length (fold (\<lambda>k. fold (\<lambda>j zn. zn[j - 1 := N_VLinearSum b (zn ! (j - 1)) a (zn ! j)])
                         (rev [k..<Suc q])) [1..<Suc q] zs) = length zs
       \<and> (\<forall>i\<ge>q. fold (\<lambda>k. fold (\<lambda>j zn. zn[j - 1 := N_VLinearSum b (zn ! (j - 1)) a (zn ! j)])
                         (rev [k..<Suc q])) [1..<Suc q] zs ! i = zs ! i)"
proof -
  define P where "P = fold (\<lambda>k. fold (\<lambda>j zn. zn[j - 1 := N_VLinearSum b (zn ! (j - 1)) a (zn ! j)])
                         (rev [k..<Suc q])) [1..<Suc q] zs"
  let ?I = "\<lambda>zs. q < length zs \<and> (\<forall>j\<le>q. length (zs ! j) = N)"
  have fr: "?I P \<and> (length P, P ! i) = (length zs, zs ! i)" if i: "q \<le> i" for i
    unfolding P_def
    using sweeps_preserve [where I = ?I and q = q and K = q and r = "\<lambda>zs. (length zs, zs ! i)"
                             and st = "\<lambda>j zn. zn[j - 1 := N_VLinearSum b (zn ! (j - 1)) a (zn ! j)]",
                           OF _ I]
          zn_step_frame [where q = q and N = N and a = a and b = b and i = i] i by blast
  from fr [of q] have "?I P" "length P = length zs" by simp_all
  moreover have "\<forall>i\<ge>q. P ! i = zs ! i" using fr by simp
  ultimately show ?thesis unfolding P_def by blast
qed

lemma sens_history_frame:
  fixes s :: "N_Vector list list"
  assumes I: "q < length s \<and> (\<forall>j\<le>q. length (s ! j) = NS \<and> (\<forall>i<NS. length (s ! j ! i) = N))"
  shows "(q < length (fold (\<lambda>is. fold (\<lambda>k. fold (\<lambda>j znS. znS[j - 1 := (znS ! (j - 1))
                            [is := N_VLinearSum b (znS ! (j - 1) ! is) a (znS ! j ! is)]])
                         (rev [k..<Suc q])) [1..<Suc q]) [0..<NS] s)
          \<and> (\<forall>j\<le>q. length (fold (\<lambda>is. fold (\<lambda>k. fold (\<lambda>j znS. znS[j - 1 := (znS ! (j - 1))
                            [is := N_VLinearSum b (znS ! (j - 1) ! is) a (znS ! j ! is)]])
                         (rev [k..<Suc q])) [1..<Suc q]) [0..<NS] s ! j) = NS
                \<and> (\<forall>i<NS. length (fold (\<lambda>is. fold (\<lambda>k. fold (\<lambda>j znS. znS[j - 1 := (znS ! (j - 1))
                            [is := N_VLinearSum b (znS ! (j - 1) ! is) a (znS ! j ! is)]])
                         (rev [k..<Suc q])) [1..<Suc q]) [0..<NS] s ! j ! i) = N)))
       \<and> length (fold (\<lambda>is. fold (\<lambda>k. fold (\<lambda>j znS. znS[j - 1 := (znS ! (j - 1))
                            [is := N_VLinearSum b (znS ! (j - 1) ! is) a (znS ! j ! is)]])
                         (rev [k..<Suc q])) [1..<Suc q]) [0..<NS] s) = length s
       \<and> (\<forall>i\<ge>q. fold (\<lambda>is. fold (\<lambda>k. fold (\<lambda>j znS. znS[j - 1 := (znS ! (j - 1))
                            [is := N_VLinearSum b (znS ! (j - 1) ! is) a (znS ! j ! is)]])
                         (rev [k..<Suc q])) [1..<Suc q]) [0..<NS] s ! i = s ! i)"
proof -
  define P where "P = fold (\<lambda>is. fold (\<lambda>k. fold (\<lambda>j znS. znS[j - 1 := (znS ! (j - 1))
                            [is := N_VLinearSum b (znS ! (j - 1) ! is) a (znS ! j ! is)]])
                         (rev [k..<Suc q])) [1..<Suc q]) [0..<NS] s"
  let ?I = "\<lambda>s :: N_Vector list list.
              q < length s \<and> (\<forall>j\<le>q. length (s ! j) = NS \<and> (\<forall>i<NS. length (s ! j ! i) = N))"
  have fr: "?I P \<and> (length P, P ! i) = (length s, s ! i)" if i: "q \<le> i" for i
    unfolding P_def
  proof (rule passes_preserve [where I = ?I and r = "\<lambda>s. (length s, s ! i)"])
    fix s :: "N_Vector list list" and j "is"
    assume h: "?I s" "1 \<le> j" "j \<le> q" "is \<in> set [0..<NS]"
    then have "is < NS" by simp
    from znS_step_frame [OF h(1) h(2) h(3) this i, of b a]
    show "?I (s[j - 1 := (s ! (j - 1))[is := N_VLinearSum b (s ! (j - 1) ! is) a (s ! j ! is)]])
        \<and> (length (s[j - 1 := (s ! (j - 1))[is := N_VLinearSum b (s ! (j - 1) ! is) a (s ! j ! is)]]),
            s[j - 1 := (s ! (j - 1))[is := N_VLinearSum b (s ! (j - 1) ! is) a (s ! j ! is)]] ! i)
           = (length s, s ! i)" .
  qed (rule I)
  from fr [of q] have "?I P" "length P = length s" by simp_all
  moreover have "\<forall>i\<ge>q. P ! i = s ! i" using fr by simp
  ultimately show ?thesis unfolding P_def by blast
qed

lemma CVPredict_eq:
  "CVPredict m = m\<lparr>cv_tn := cv_tn m + cv_h m,
     cv_zn := fold (\<lambda>k. fold (\<lambda>j zn. zn[j - 1 := N_VLinearSum ONE (zn ! (j - 1)) ONE (zn ! j)])
                         (rev [k..<Suc (nat (cv_q m))])) [1..<Suc (nat (cv_q m))] (cv_zn m),
     cv_znQ := (if cv_quad m then fold (\<lambda>k. fold (\<lambda>j zn. zn[j - 1 := N_VLinearSum ONE (zn ! (j - 1)) ONE (zn ! j)])
                         (rev [k..<Suc (nat (cv_q m))])) [1..<Suc (nat (cv_q m))] (cv_znQ m) else cv_znQ m),
     cv_znS := (if cv_sensi m then fold (\<lambda>is. fold (\<lambda>k. fold (\<lambda>j znS. znS[j - 1 := (znS ! (j - 1))
                            [is := N_VLinearSum ONE (znS ! (j - 1) ! is) ONE (znS ! j ! is)]])
                         (rev [k..<Suc (nat (cv_q m))])) [1..<Suc (nat (cv_q m))])
             [0..<nat (cv_Ns m)] (cv_znS m) else cv_znS m)\<rparr>"
  unfolding CVPredict_def by (simp add: Let_def)

lemma CVRestore_eq:
  "CVRestore m saved_t = m\<lparr>cv_tn := saved_t,
     cv_zn := fold (\<lambda>k. fold (\<lambda>j zn. zn[j - 1 := N_VLinearSum ONE (zn ! (j - 1)) (- ONE) (zn ! j)])
                         (rev [k..<Suc (nat (cv_q m))])) [1..<Suc (nat (cv_q m))] (cv_zn m),
     cv_znQ := (if cv_quad m then fold (\<lambda>k. fold (\<lambda>j zn. zn[j - 1 := N_VLinearSum ONE (zn ! (j - 1)) (- ONE) (zn ! j)])
                         (rev [k..<Suc (nat (cv_q m))])) [1..<Suc (nat (cv_q m))] (cv_znQ m) else cv_znQ m),
     cv_znS := (if cv_sensi m then fold (\<lambda>is. fold (\<lambda>k. fold (\<lambda>j znS. znS[j - 1 := (znS ! (j - 1))
                            [is := N_VLinearSum ONE (znS ! (j - 1) ! is) (- ONE) (znS ! j ! is)]])
                         (rev [k..<Suc (nat (cv_q m))])) [1..<Suc (nat (cv_q m))])
             [0..<nat (cv_Ns m)] (cv_znS m) else cv_znS m)\<rparr>"
  unfolding CVRestore_def by (simp add: Let_def)





lemma is_double_real_tiny: "is_double_real (1 / 2 ^ 60)"
  by (rule is_double_realI [where m = 1 and e = 1014]) simp_all

lemma RCONST_1_plus_tiny: "RCONST (1 / 2 ^ 60 + 1) = RCONST 1"
  by (rule RCONST_down [where m = "2 ^ 52" and p = 1022]) simp_all


end
